theory Spec2Isabelle
  imports Main "HOL-Library.Word"
begin

section \<open>NiriSetup: a shallow embedding of the two program variants\<close>

text \<open>
  The repository holds two variants of the same terminal assistant. Both are complete
  programs (\<^verbatim>\<open>package main\<close> with its own \<^verbatim>\<open>main\<close>):
  \<^item> \<^verbatim>\<open>NiriSetup.go\<close> has the screen state machine (\<^verbatim>\<open>menuView\<close>,
    \<^verbatim>\<open>installView\<close>, \<^verbatim>\<open>actionView\<close>), the one-shot \<^verbatim>\<open>actionMsg\<close> and the
    ownership check of the runtime directory; its install runner only installs packages.
  \<^item> the second file (kept as \<^verbatim>\<open>part_000\<close>) has no screens; its install runner also
    copies \<^verbatim>\<open>config.kdl\<close> into place, and its environment setup only logs a failure.
  Where the two files define a function of the same name differently, the definition
  named as in the source embeds \<^verbatim>\<open>NiriSetup.go\<close> and the one of the second file carries
  the suffix \<open>_p0\<close>. A function that is the same text in both files
  (\<^verbatim>\<open>saveLogsToFile\<close>) or stands in one of them only (\<^verbatim>\<open>copyFile\<close>) is embedded once,
  under its name. Each statement below says which file it is about.
\<close>

subsection \<open>Go values\<close>

text \<open>
  A non-nil Go \<^verbatim>\<open>error\<close>. \<open>Errorf f\<close> is the value \<^verbatim>\<open>fmt.Errorf(f)\<close> built from the
  format string \<open>f\<close> with no operands, \<open>ExitError n\<close> the \<^verbatim>\<open>*exec.ExitError\<close> of a
  command that exited with status \<open>n\<close>, \<open>ErrNotExist\<close> the error of a path that does
  not exist, \<open>OSError e\<close> any other error the operating system or the library
  reports. The \<^verbatim>\<open>nil\<close> error is \<open>None\<close> of \<open>error option\<close>.
\<close>

datatype error = Errorf string | ExitError nat | ErrNotExist | OSError string

record statusMsg =
  status :: string
  err :: "error option"

text \<open>
  A \<^verbatim>\<open>tea.Msg\<close> as \<^verbatim>\<open>Update\<close> tells them apart: a key press (carrying
  \<^verbatim>\<open>msg.String()\<close>), a \<^verbatim>\<open>statusMsg\<close>, or anything else (window size, the \<^verbatim>\<open>nil\<close>
  of a tick).
\<close>

datatype msg = KeyMsg string | StatusMsg statusMsg | OtherMsg

text \<open>
  The \<^verbatim>\<open>tea.Cmd\<close> values \<^verbatim>\<open>Update\<close> can return: \<^verbatim>\<open>nil\<close>, \<^verbatim>\<open>tea.Quit\<close>, and the
  closures of the four action runners. \<^verbatim>\<open>saveLogsToFile(m)\<close> captures the model by
  value.
\<close>

datatype 'm cmd = NoCmd | Quit | InstallNiri | ConfigureNiri | ValidateNiriConfig | SaveLogsToFile 'm

text \<open>A run-time panic of the Go program.\<close>

datatype panic = IndexOutOfRange

text \<open>
  \<^verbatim>\<open>xs[i]\<close> on a slice with an \<^verbatim>\<open>int\<close> index: outside \<open>0 \<le> i < len(xs)\<close> Go
  panics, which is \<open>None\<close> here.
\<close>

definition index :: "'a list \<Rightarrow> int \<Rightarrow> 'a option" where
  "index xs i = (if 0 \<le> i \<and> i < int (length xs) then Some (xs ! nat i) else None)"

subsection \<open>The controller of NiriSetup.go\<close>

text \<open>
  \<^verbatim>\<open>cursor\<close> is a Go \<^verbatim>\<open>int\<close>. It is only ever decremented when positive and
  incremented when below \<^verbatim>\<open>len(m.choices)-1\<close>, so the bounds of the machine type are
  never reached and \<open>int\<close> reads it exactly.
\<close>

datatype appState = menuView | installView | actionView

record model =
  state :: appState
  choices :: "string list"
  cursor :: int
  selected :: string
  logs :: "string list"
  isProcessing :: bool
  progress :: string
  actionMsg :: string

definition initialModel :: model where
  "initialModel =
     \<lparr>state = menuView,
      choices = [''Install Niri'', ''Configure Niri'', ''Validate Config'', ''Save Logs'', ''Exit''],
      cursor = 0, selected = [], logs = [], isProcessing = False, progress = [],
      actionMsg = []\<rparr>"

text \<open>
  \<^verbatim>\<open>case "enter"\<close> of the menu (lines 68 to 89): \<^verbatim>\<open>selected\<close> and \<^verbatim>\<open>isProcessing\<close> are
  set before the inner switch, for every entry. A label that matches no case leaves the
  switch and reaches the final \<^verbatim>\<open>return m, nil\<close>.
\<close>

definition enter :: "model \<Rightarrow> panic + (model \<times> model cmd)" where
  "enter m =
     (case index (choices m) (cursor m) of
        None \<Rightarrow> Inl IndexOutOfRange
      | Some c \<Rightarrow>
          (let m1 = m\<lparr>selected := c, isProcessing := True\<rparr> in
           if c = ''Install Niri'' then Inr (m1\<lparr>state := installView\<rparr>, InstallNiri)
           else if c = ''Configure Niri'' then
             Inr (m1\<lparr>state := actionView, actionMsg := ''Configuring Niri...''\<rparr>, ConfigureNiri)
           else if c = ''Validate Config'' then
             Inr (m1\<lparr>state := actionView, actionMsg := ''Validating Niri config...''\<rparr>,
                  ValidateNiriConfig)
           else if c = ''Save Logs'' then
             (let m2 = m1\<lparr>state := actionView, actionMsg := ''Saving logs...''\<rparr>
              in Inr (m2, SaveLogsToFile m2))
           else if c = ''Exit'' then Inr (m1, Quit)
           else Inr (m1, NoCmd)))"

text \<open>\<^verbatim>\<open>case menuView\<close> of the key switch (lines 56 to 90).\<close>

definition menuKey :: "model \<Rightarrow> string \<Rightarrow> panic + (model \<times> model cmd)" where
  "menuKey m k =
     (if k = ''ctrl+c'' \<or> k = ''q'' then Inr (m, Quit)
      else if k = ''up'' then
        Inr (if cursor m > 0 then m\<lparr>cursor := cursor m - 1\<rparr> else m, NoCmd)
      else if k = ''down'' then
        Inr (if cursor m < int (length (choices m)) - 1 then m\<lparr>cursor := cursor m + 1\<rparr> else m,
             NoCmd)
      else if k = ''enter'' then enter m
      else Inr (m, NoCmd))"

text \<open>\<^verbatim>\<open>case statusMsg\<close> (lines 95 to 108).\<close>

definition onStatus :: "model \<Rightarrow> statusMsg \<Rightarrow> model" where
  "onStatus m s =
     (let m1 = m\<lparr>logs := logs m @ [status s], isProcessing := False\<rparr> in
      if err s = None \<and> state m1 = installView then m1\<lparr>state := menuView, logs := []\<rparr>
      else if err s = None \<and> state m1 = actionView then
        m1\<lparr>state := menuView, actionMsg := status s\<rparr>
      else m1)"

text \<open>\<^verbatim>\<open>func (m model) Update(msg tea.Msg) (tea.Model, tea.Cmd)\<close>, lines 52 to 112.\<close>

definition Update :: "model \<Rightarrow> msg \<Rightarrow> panic + (model \<times> model cmd)" where
  "Update m x =
     (case x of
        KeyMsg k \<Rightarrow>
          (case state m of
             menuView \<Rightarrow> menuKey m k
           | installView \<Rightarrow> Inr (m, NoCmd)
           | actionView \<Rightarrow> Inr (m, NoCmd))
      | StatusMsg s \<Rightarrow> Inr (onStatus m s, NoCmd)
      | OtherMsg \<Rightarrow> Inr (m, NoCmd))"

text \<open>
  The event loop of the runtime feeds the messages to \<^verbatim>\<open>Update\<close> one at a time, each
  call on the model the call before returned. \<open>run\<close> returns the model after the last
  message and the commands returned on the way, oldest first. The model returned
  together with \<^verbatim>\<open>tea.Quit\<close> is still a model of the run: the runtime renders it once
  more before the quit message arrives.
\<close>

fun run :: "model \<Rightarrow> msg list \<Rightarrow> panic + (model \<times> model cmd list)" where
  "run m [] = Inr (m, [])"
| "run m (x # xs) =
     (case Update m x of
        Inl p \<Rightarrow> Inl p
      | Inr (m', c) \<Rightarrow>
          (case run m' xs of Inl p \<Rightarrow> Inl p | Inr (m'', cs) \<Rightarrow> Inr (m'', c # cs)))"

text \<open>
  The facts about the models a run from \<open>initialModel\<close> can reach: the menu is the
  fixed list of five entries and the cursor points into it (\<open>wellFormed\<close>), and
  \<^verbatim>\<open>isProcessing\<close> is set on the menu screen only by the \<^verbatim>\<open>Exit\<close> entry
  (\<open>guarded\<close>).
\<close>

definition menuChoices :: "string list" where
  "menuChoices = [''Install Niri'', ''Configure Niri'', ''Validate Config'', ''Save Logs'', ''Exit'']"

definition wellFormed :: "model \<Rightarrow> bool" where
  "wellFormed m = (choices m = menuChoices \<and> 0 \<le> cursor m \<and> cursor m \<le> 4)"

definition guarded :: "model \<Rightarrow> bool" where
  "guarded m = (\<not> isProcessing m \<or> state m \<noteq> menuView \<or> selected m = ''Exit'')"

definition isRunner :: "'m cmd \<Rightarrow> bool" where
  "isRunner c = (case c of NoCmd \<Rightarrow> False | Quit \<Rightarrow> False | _ \<Rightarrow> True)"

subsection \<open>Rendering (NiriSetup.go)\<close>

text \<open>
  The two \<^verbatim>\<open>lipgloss\<close> styles the program renders with are parameters: \<open>foreground\<close> is
  \<^verbatim>\<open>lipgloss.NewStyle().Foreground(lipgloss.Color("#FFA07A")).Render\<close> and \<open>padding\<close> is
  \<^verbatim>\<open>lipgloss.NewStyle().Padding(1, 2).Render\<close>.
\<close>

record lipgloss =
  foreground :: "string \<Rightarrow> string"
  padding :: "string \<Rightarrow> string"

abbreviation nl :: string where
  "nl \<equiv> [CHR 0x0A]"

text \<open>One pass of \<^verbatim>\<open>for i, choice := range m.choices\<close>; \<open>i\<close> is the index of \<open>choice\<close>.\<close>

fun menuLines :: "int \<Rightarrow> nat \<Rightarrow> string list \<Rightarrow> string" where
  "menuLines cur i [] = []"
| "menuLines cur i (choice # rest) =
     (if cur = int i then ''>'' else '' '') @ '' '' @ choice @ nl @ menuLines cur (Suc i) rest"

text \<open>
  \<^verbatim>\<open>func (m model) renderMenuView() string\<close>, lines 127 to 141. The receiver is passed by
  value, so \<^verbatim>\<open>m.actionMsg = ""\<close> on line 138 writes to the method's own copy. The
  second component is that copy as it stands when the method returns; the caller never
  sees it.
\<close>

definition renderMenuView :: "lipgloss \<Rightarrow> model \<Rightarrow> string \<times> model" where
  "renderMenuView lg m =
     (let s = ''NiriSetup Assistant for FreeBSD'' @ nl @ nl @ menuLines (cursor m) 0 (choices m)
      in if actionMsg m \<noteq> []
         then (padding lg (s @ nl @ foreground lg (actionMsg m) @ nl), m\<lparr>actionMsg := []\<rparr>)
         else (padding lg s, m))"

definition renderInstallView :: "lipgloss \<Rightarrow> model \<Rightarrow> string" where
  "renderInstallView lg m =
     padding lg (''Installing Niri...'' @ nl @ nl
                 @ concat (map (\<lambda>l. foreground lg (l @ nl)) (logs m))
                 @ ''Please wait...'' @ nl)"

definition renderActionView :: "lipgloss \<Rightarrow> model \<Rightarrow> string" where
  "renderActionView lg m = padding lg (actionMsg m @ nl @ nl @ ''Please wait...'')"

text \<open>\<^verbatim>\<open>func (m model) View() string\<close>: a string is all it returns.\<close>

definition View :: "lipgloss \<Rightarrow> model \<Rightarrow> string" where
  "View lg m =
     (case state m of
        menuView \<Rightarrow> fst (renderMenuView lg m)
      | installView \<Rightarrow> renderInstallView lg m
      | actionView \<Rightarrow> renderActionView lg m)"

text \<open>
  A render cycle: the runtime calls \<^verbatim>\<open>Update\<close>, keeps the model it returns and writes
  \<^verbatim>\<open>View\<close> of that model. \<open>frames\<close> is \<open>run\<close> with the rendered views in place of the
  commands.
\<close>

fun frames :: "lipgloss \<Rightarrow> model \<Rightarrow> msg list \<Rightarrow> panic + (model \<times> string list)" where
  "frames lg m [] = Inr (m, [])"
| "frames lg m (x # xs) =
     (case Update m x of
        Inl p \<Rightarrow> Inl p
      | Inr (m', c) \<Rightarrow>
          (case frames lg m' xs of
             Inl p \<Rightarrow> Inl p
           | Inr (m'', vs) \<Rightarrow> Inr (m'', View lg m' # vs)))"

subsection \<open>The operating system\<close>

text \<open>
  What the runners do to the machine is explicit state: the file system (one inode per
  path; symbolic links and relative paths are not resolved), the process environment,
  and the external commands the program has started, oldest first.
\<close>

record inode =
  owner :: "32 word"
  perm :: nat
  isDir :: bool
  content :: string

record world =
  fs :: "string \<rightharpoonup> inode"
  environ :: "string \<rightharpoonup> string"
  commands :: "string list list"
  console :: string

text \<open>How an external command ends: it ran and exited with a status, or it never started.\<close>

datatype outcome = Exited nat | NotStarted string

text \<open>
  What the program cannot decide is a parameter: the effective user id, what an external
  command prints and how it ends (given the commands started before it), the directories
  the library reports, and the faults of the system calls (\<open>None\<close>: no fault). A
  fault of a write or of a copy says how many bytes went through before it.
\<close>

record sys =
  geteuid :: int
  command :: "string list list \<Rightarrow> string list \<Rightarrow> string \<times> outcome"
  statFault :: "string \<Rightarrow> string option"
  statHasUid :: bool
  mkdirFault :: "string \<Rightarrow> string option"
  openFault :: "string \<Rightarrow> string option"
  writeFault :: "string \<Rightarrow> string \<Rightarrow> string \<Rightarrow> (string \<times> nat) option"
  copyFault :: "string \<Rightarrow> string \<Rightarrow> (string \<times> nat) option"
  getwd :: "string + string"
  userHomeDir :: string
  tempDir :: string

definition octal :: "nat \<Rightarrow> nat \<Rightarrow> nat \<Rightarrow> nat" where
  "octal a b c = a * 64 + b * 8 + c"

text \<open>\<^verbatim>\<open>strings.Join(elems, sep)\<close>.\<close>

fun strings_Join :: "string list \<Rightarrow> string \<Rightarrow> string" where
  "strings_Join [] sep = []"
| "strings_Join [x] sep = x"
| "strings_Join (x # y # ys) sep = x @ sep @ strings_Join (y # ys) sep"

text \<open>
  \<^verbatim>\<open>filepath.Clean\<close> on a Unix path. The path is cut at its slashes; empty elements (of
  repeated slashes) and \<^verbatim>\<open>.\<close> are dropped; \<^verbatim>\<open>..\<close> removes the element before it, is
  dropped at the root of a rooted path, and is kept at the front of a relative one. What
  is written so far is \<open>out\<close>, last element first. The result starts with a slash
  exactly when the path does, has no slash at its end but for the root, and is \<^verbatim>\<open>.\<close>
  when nothing is left.
\<close>

fun splitPath :: "string \<Rightarrow> string \<Rightarrow> string list" where
  "splitPath cur [] = [cur]"
| "splitPath cur (c # cs) =
     (if c = CHR ''/'' then cur # splitPath [] cs else splitPath (cur @ [c]) cs)"

definition cleanStep :: "bool \<Rightarrow> string list \<Rightarrow> string \<Rightarrow> string list" where
  "cleanStep rooted out e =
     (if e = [] \<or> e = ''.'' then out
      else if e = ''..'' then
        (case out of
           [] \<Rightarrow> if rooted then [] else [e]
         | el # below \<Rightarrow> if el = ''..'' then e # out else below)
      else e # out)"

definition isRooted :: "string \<Rightarrow> bool" where
  "isRooted p = (case p of [] \<Rightarrow> False | c # cs \<Rightarrow> c = CHR ''/'')"

definition filepath_Clean :: "string \<Rightarrow> string" where
  "filepath_Clean p =
     (let out = foldl (cleanStep (isRooted p)) [] (splitPath [] p);
          s = (if isRooted p then ''/'' else []) @ strings_Join (rev out) ''/''
      in if s = [] then ''.'' else s)"

text \<open>
  \<^verbatim>\<open>filepath.Join\<close>: the elements from the first non-empty one on are joined with
  slashes and the result is cleaned; with no non-empty element it is the empty string.
\<close>

definition filepath_Join :: "string list \<Rightarrow> string" where
  "filepath_Join elems =
     (case dropWhile (\<lambda>e. e = []) elems of
        [] \<Rightarrow> []
      | rest \<Rightarrow> filepath_Clean (strings_Join rest ''/''))"

text \<open>The verb \<^verbatim>\<open>%d\<close> of \<^verbatim>\<open>fmt\<close> on an \<^verbatim>\<open>int\<close>.\<close>

fun digitsOf :: "nat \<Rightarrow> string" where
  "digitsOf n =
     (if n < 10 then [''0123456789'' ! n]
      else digitsOf (n div 10) @ [''0123456789'' ! (n mod 10)])"

declare digitsOf.simps [simp del]

definition fmt_d :: "int \<Rightarrow> string" where
  "fmt_d i = (if i < 0 then ''-'' @ digitsOf (nat (- i)) else digitsOf (nat i))"

text \<open>
  \<^verbatim>\<open>cmd.CombinedOutput()\<close> of \<^verbatim>\<open>exec.Command(argv...)\<close>: the command is started (and
  recorded), its output is returned, and the error is \<^verbatim>\<open>nil\<close> exactly when it ran and
  exited with status 0.
\<close>

definition CombinedOutput :: "sys \<Rightarrow> string list \<Rightarrow> world \<Rightarrow> (string \<times> error option) \<times> world" where
  "CombinedOutput sy argv w =
     (let (out, oc) = command sy (commands w) argv
      in ((out,
           case oc of
             Exited n \<Rightarrow> if n = 0 then None else Some (ExitError n)
           | NotStarted e \<Rightarrow> Some (OSError e)),
          w\<lparr>commands := commands w @ [argv]\<rparr>))"

text \<open>\<^verbatim>\<open>os.Stat\<close>: \<open>Inl ErrNotExist\<close> is the error \<^verbatim>\<open>os.IsNotExist\<close> accepts.\<close>

definition Stat :: "sys \<Rightarrow> string \<Rightarrow> world \<Rightarrow> error + inode" where
  "Stat sy p w =
     (case statFault sy p of
        Some e \<Rightarrow> Inl (OSError e)
      | None \<Rightarrow> (case fs w p of None \<Rightarrow> Inl ErrNotExist | Some n \<Rightarrow> Inr n))"

definition newDir :: "sys \<Rightarrow> nat \<Rightarrow> inode" where
  "newDir sy pm = \<lparr>owner = word_of_int (geteuid sy), perm = pm, isDir = True, content = []\<rparr>"

definition newFile :: "sys \<Rightarrow> nat \<Rightarrow> inode" where
  "newFile sy pm = \<lparr>owner = word_of_int (geteuid sy), perm = pm, isDir = False, content = []\<rparr>"

text \<open>\<^verbatim>\<open>os.Mkdir(p, pm)\<close>; the process's umask is not modelled.\<close>

definition Mkdir :: "sys \<Rightarrow> string \<Rightarrow> nat \<Rightarrow> world \<Rightarrow> error option \<times> world" where
  "Mkdir sy p pm w =
     (case mkdirFault sy p of
        Some e \<Rightarrow> (Some (OSError e), w)
      | None \<Rightarrow>
          if fs w p \<noteq> None then (Some (OSError ''file exists''), w)
          else (None, w\<lparr>fs := (fs w)(p \<mapsto> newDir sy pm)\<rparr>))"

text \<open>
  The directories \<^verbatim>\<open>os.MkdirAll(p, pm)\<close> needs: every prefix of \<open>p\<close> that ends before
  a slash, and \<open>p\<close> itself. It fails when one of them exists and is not a directory,
  and creates those that are absent.
\<close>

fun pathPrefixes :: "string \<Rightarrow> string \<Rightarrow> string list" where
  "pathPrefixes acc [] = [acc]"
| "pathPrefixes acc (c # cs) =
     (if c = CHR ''/'' \<and> acc \<noteq> [] then acc # pathPrefixes (acc @ [c]) cs
      else pathPrefixes (acc @ [c]) cs)"

definition isDirAt :: "world \<Rightarrow> string \<Rightarrow> bool" where
  "isDirAt w p = (case fs w p of None \<Rightarrow> False | Some n \<Rightarrow> isDir n)"

definition isFileAt :: "world \<Rightarrow> string \<Rightarrow> bool" where
  "isFileAt w p = (case fs w p of None \<Rightarrow> False | Some n \<Rightarrow> \<not> isDir n)"

definition mkdirIfAbsent :: "sys \<Rightarrow> nat \<Rightarrow> (string \<rightharpoonup> inode) \<Rightarrow> string \<Rightarrow> (string \<rightharpoonup> inode)" where
  "mkdirIfAbsent sy pm f d = (if f d = None then f(d \<mapsto> newDir sy pm) else f)"

definition MkdirAll :: "sys \<Rightarrow> string \<Rightarrow> nat \<Rightarrow> world \<Rightarrow> error option \<times> world" where
  "MkdirAll sy p pm w =
     (case mkdirFault sy p of
        Some e \<Rightarrow> (Some (OSError e), w)
      | None \<Rightarrow>
          if list_ex (isFileAt w) (pathPrefixes [] p)
          then (Some (OSError ''not a directory''), w)
          else (None, w\<lparr>fs := foldl (mkdirIfAbsent sy pm) (fs w) (pathPrefixes [] p)\<rparr>))"

definition contentOf :: "world \<Rightarrow> string \<Rightarrow> string" where
  "contentOf w p = (case fs w p of None \<Rightarrow> [] | Some n \<Rightarrow> content n)"

definition setContent :: "string \<Rightarrow> string \<Rightarrow> world \<Rightarrow> world" where
  "setContent p d w = w\<lparr>fs := (fs w)(p := map_option (\<lambda>n. n\<lparr>content := d\<rparr>) (fs w p))\<rparr>"

text \<open>
  \<^verbatim>\<open>os.OpenFile(p, os.O_APPEND|os.O_CREATE|os.O_WRONLY, pm)\<close>: an absent file is created
  empty, an existing one is left as it is.
\<close>

definition OpenFile_append :: "sys \<Rightarrow> string \<Rightarrow> nat \<Rightarrow> world \<Rightarrow> error option \<times> world" where
  "OpenFile_append sy p pm w =
     (case openFault sy p of
        Some e \<Rightarrow> (Some (OSError e), w)
      | None \<Rightarrow>
          (case fs w p of
             None \<Rightarrow> (None, w\<lparr>fs := (fs w)(p \<mapsto> newFile sy pm)\<rparr>)
           | Some n \<Rightarrow> if isDir n then (Some (OSError ''is a directory''), w) else (None, w)))"

text \<open>
  \<^verbatim>\<open>file.WriteString(d)\<close> on a file opened with \<^verbatim>\<open>O_APPEND\<close>: the bytes go to the end
  of the file; a fault after \<open>k\<close> bytes leaves those \<open>k\<close> bytes written.
\<close>

definition WriteString :: "sys \<Rightarrow> string \<Rightarrow> string \<Rightarrow> world \<Rightarrow> error option \<times> world" where
  "WriteString sy p d w =
     (case writeFault sy p (contentOf w p) d of
        Some (e, k) \<Rightarrow> (Some (OSError e), setContent p (contentOf w p @ take k d) w)
      | None \<Rightarrow> (None, setContent p (contentOf w p @ d) w))"

text \<open>
  \<^verbatim>\<open>os.Create(p)\<close>: \<^verbatim>\<open>O_RDWR|O_CREATE|O_TRUNC\<close> with mode 0666; an existing file is
  emptied.
\<close>

definition Create :: "sys \<Rightarrow> string \<Rightarrow> world \<Rightarrow> error option \<times> world" where
  "Create sy p w =
     (case openFault sy p of
        Some e \<Rightarrow> (Some (OSError e), w)
      | None \<Rightarrow>
          (case fs w p of
             None \<Rightarrow> (None, w\<lparr>fs := (fs w)(p \<mapsto> newFile sy (octal 6 6 6))\<rparr>)
           | Some n \<Rightarrow>
               if isDir n then (Some (OSError ''is a directory''), w)
               else (None, setContent p [] w)))"

subsection \<open>The action runners\<close>

text \<open>The package list, the same in both files (line 158, and line 119 of the second).\<close>

definition pkgs :: "string list" where
  "pkgs = [''niri'', ''wlroots'', ''xwayland-satellite'', ''seatd'', ''waybar'', ''grim'', ''jq'',
           ''wofi'', ''alacritty'', ''pam_xdg'', ''fuzzel'', ''swaylock'', ''foot'', ''wlsunset'',
           ''swaybg'', ''mako'', ''swayidle'']"

definition pkgCommand :: "string \<Rightarrow> string list" where
  "pkgCommand pkg = [''sudo'', ''pkg'', ''install'', ''-y'', pkg]"

text \<open>
  The loop of \<^verbatim>\<open>installNiri\<close> in \<^verbatim>\<open>NiriSetup.go\<close> (lines 161 to 172) over the packages
  still to install, with the success lines gathered so far. \<open>Inl\<close> is the \<^verbatim>\<open>return\<close>
  inside the loop, \<open>Inr\<close> the lines when the loop ends. \<^verbatim>\<open>time.Sleep\<close> changes
  nothing that is modelled.
\<close>

fun installLoop :: "sys \<Rightarrow> string list \<Rightarrow> string list \<Rightarrow> world \<Rightarrow> (statusMsg + string list) \<times> world" where
  "installLoop sy [] lines w = (Inr lines, w)"
| "installLoop sy (pkg # rest) lines w =
     (case CombinedOutput sy (pkgCommand pkg) w of
        ((out, Some e), w') \<Rightarrow>
          (Inl \<lparr>status = ''Failed to install '' @ pkg, err = Some (Errorf out)\<rparr>, w')
      | ((out, None), w') \<Rightarrow>
          installLoop sy rest (lines @ [''Successfully installed '' @ pkg]) w')"

definition installNiri :: "sys \<Rightarrow> world \<Rightarrow> statusMsg \<times> world" where
  "installNiri sy w =
     (case installLoop sy pkgs [] w of
        (Inl failed, w') \<Rightarrow> (failed, w')
      | (Inr lines, w') \<Rightarrow> (\<lparr>status = strings_Join lines nl, err = None\<rparr>, w'))"

definition configureNiri :: "sys \<Rightarrow> world \<Rightarrow> statusMsg \<times> world" where
  "configureNiri sy w = (\<lparr>status = ''Niri configuration completed successfully.'', err = None\<rparr>, w)"

definition validateNiriConfig :: "sys \<Rightarrow> world \<Rightarrow> statusMsg \<times> world" where
  "validateNiriConfig sy w =
     (case CombinedOutput sy [''niri'', ''validate''] w of
        ((out, Some e), w') \<Rightarrow> (\<lparr>status = ''Validation failed: '' @ out, err = Some e\<rparr>, w')
      | ((out, None), w') \<Rightarrow> (\<lparr>status = ''Niri configuration is valid.'', err = None\<rparr>, w'))"

text \<open>
  \<^verbatim>\<open>saveLogsToFile\<close> is the same text in both files. Of the model it captures it reads
  \<^verbatim>\<open>m.logs\<close> only, which is the parameter here. \<^verbatim>\<open>defer file.Close()\<close> changes
  nothing that is modelled.
\<close>

definition logFile :: "sys \<Rightarrow> string" where
  "logFile sy = filepath_Join [tempDir sy, ''nirisetup.log'']"

fun writeLines :: "sys \<Rightarrow> string \<Rightarrow> string list \<Rightarrow> world \<Rightarrow> error option \<times> world" where
  "writeLines sy p [] w = (None, w)"
| "writeLines sy p (l # ls) w =
     (case WriteString sy p (l @ nl) w of
        (Some e, w') \<Rightarrow> (Some e, w')
      | (None, w') \<Rightarrow> writeLines sy p ls w')"

definition saveLogsToFile :: "sys \<Rightarrow> string list \<Rightarrow> world \<Rightarrow> statusMsg \<times> world" where
  "saveLogsToFile sy lines w =
     (case OpenFile_append sy (logFile sy) (octal 6 4 4) w of
        (Some e, w') \<Rightarrow> (\<lparr>status = ''Failed to open log file for writing'', err = Some e\<rparr>, w')
      | (None, w1) \<Rightarrow>
          (case writeLines sy (logFile sy) lines w1 of
             (Some e, w2) \<Rightarrow> (\<lparr>status = ''Failed to write to log file'', err = Some e\<rparr>, w2)
           | (None, w2) \<Rightarrow> (\<lparr>status = ''Logs saved to '' @ logFile sy, err = None\<rparr>, w2)))"

text \<open>What the runtime does with a command of \<^verbatim>\<open>NiriSetup.go\<close>: the message it produces.\<close>

fun runCmd :: "sys \<Rightarrow> model cmd \<Rightarrow> world \<Rightarrow> statusMsg option \<times> world" where
  "runCmd sy NoCmd w = (None, w)"
| "runCmd sy Quit w = (None, w)"
| "runCmd sy InstallNiri w = (case installNiri sy w of (s, w') \<Rightarrow> (Some s, w'))"
| "runCmd sy ConfigureNiri w = (case configureNiri sy w of (s, w') \<Rightarrow> (Some s, w'))"
| "runCmd sy ValidateNiriConfig w = (case validateNiriConfig sy w of (s, w') \<Rightarrow> (Some s, w'))"
| "runCmd sy (SaveLogsToFile m) w = (case saveLogsToFile sy (logs m) w of (s, w') \<Rightarrow> (Some s, w'))"

subsection \<open>The install runner of the second file\<close>

text \<open>
  The loop of \<^verbatim>\<open>installNiri\<close> in the second file (lines 120 to 128): a success is
  printed to the console. \<open>Some\<close> is the \<^verbatim>\<open>return\<close> inside the loop.
\<close>

fun installLoop_p0 :: "sys \<Rightarrow> string list \<Rightarrow> world \<Rightarrow> statusMsg option \<times> world" where
  "installLoop_p0 sy [] w = (None, w)"
| "installLoop_p0 sy (pkg # rest) w =
     (case CombinedOutput sy (pkgCommand pkg) w of
        ((out, Some e), w') \<Rightarrow>
          (Some \<lparr>status = ''Failed to install '' @ pkg, err = Some (Errorf out)\<rparr>, w')
      | ((out, None), w') \<Rightarrow>
          installLoop_p0 sy rest
            (w'\<lparr>console := console w' @ ''Successfully installed '' @ pkg @ nl\<rparr>))"

text \<open>
  \<^verbatim>\<open>copyFile\<close> (lines 155 to 170): the source is opened, the destination is created or
  emptied, and only then is the source read. A directory opens but cannot be read.
\<close>

definition copyFile :: "sys \<Rightarrow> string \<Rightarrow> string \<Rightarrow> world \<Rightarrow> error option \<times> world" where
  "copyFile sy src dst w =
     (case openFault sy src of
        Some e \<Rightarrow> (Some (OSError e), w)
      | None \<Rightarrow>
          (case fs w src of
             None \<Rightarrow> (Some ErrNotExist, w)
           | Some sourceFile \<Rightarrow>
               (case Create sy dst w of
                  (Some e, w1) \<Rightarrow> (Some e, w1)
                | (None, w1) \<Rightarrow>
                    if isDir sourceFile then (Some (OSError ''is a directory''), w1)
                    else
                      (case copyFault sy src dst of
                         Some (e, k) \<Rightarrow>
                           (Some (OSError e), setContent dst (take k (contentOf w1 src)) w1)
                       | None \<Rightarrow> (None, setContent dst (contentOf w1 src) w1)))))"

definition sourceConfigPath :: "string \<Rightarrow> string" where
  "sourceConfigPath workingDir = filepath_Join [workingDir, ''config.kdl'']"

definition configDir :: "sys \<Rightarrow> string" where
  "configDir sy = filepath_Join [userHomeDir sy, ''.config'', ''niri'']"

definition destConfigPath :: "sys \<Rightarrow> string" where
  "destConfigPath sy = filepath_Join [configDir sy, ''config.kdl'']"

text \<open>
  \<^verbatim>\<open>installNiri\<close> of the second file, lines 117 to 153. The error of
  \<^verbatim>\<open>os.UserHomeDir\<close> is dropped by the source; \<open>userHomeDir\<close> is then the empty string.
\<close>

definition installNiri_p0 :: "sys \<Rightarrow> world \<Rightarrow> statusMsg \<times> world" where
  "installNiri_p0 sy w =
     (case installLoop_p0 sy pkgs w of
        (Some failed, w') \<Rightarrow> (failed, w')
      | (None, w1) \<Rightarrow>
          (case getwd sy of
             Inl e \<Rightarrow>
               (\<lparr>status = ''Failed to get current working directory'', err = Some (OSError e)\<rparr>, w1)
           | Inr workingDir \<Rightarrow>
               (case MkdirAll sy (configDir sy) (octal 7 5 5) w1 of
                  (Some e, w2) \<Rightarrow>
                    (\<lparr>status = ''Failed to create niri configuration directory'', err = Some e\<rparr>, w2)
                | (None, w2) \<Rightarrow>
                    (case copyFile sy (sourceConfigPath workingDir) (destConfigPath sy) w2 of
                       (Some e, w3) \<Rightarrow> (\<lparr>status = ''Failed to copy config.kdl'', err = Some e\<rparr>, w3)
                     | (None, w3) \<Rightarrow>
                         (\<lparr>status = ''Niri installation and configuration completed successfully.'',
                           err = None\<rparr>, w3)))))"

definition validateNiriConfig_p0 :: "sys \<Rightarrow> world \<Rightarrow> statusMsg \<times> world" where
  "validateNiriConfig_p0 sy w =
     (case CombinedOutput sy [''niri'', ''validate''] w of
        ((out, Some e), w') \<Rightarrow>
          (\<lparr>status = ''Configuration validation failed: '' @ out, err = Some e\<rparr>, w')
      | ((out, None), w') \<Rightarrow> (\<lparr>status = ''Niri configuration is valid.'', err = None\<rparr>, w'))"

subsection \<open>Start-up\<close>

text \<open>The ways \<^verbatim>\<open>log.Fatalf\<close> ends the process in \<^verbatim>\<open>setupEnvironment\<close>.\<close>

datatype fatal =
  CreateFailed error
  | StatFailed error
  | NoOwnerInfo
  | WrongOwner string "32 word" int

definition runtimeDir :: "int \<Rightarrow> string" where
  "runtimeDir userID = ''/tmp/'' @ fmt_d userID @ ''-runtime-dir''"

text \<open>
  \<^verbatim>\<open>setupEnvironment\<close> of \<^verbatim>\<open>NiriSetup.go\<close>, lines 216 to 249. \<open>Inl\<close> is the process
  ended by \<^verbatim>\<open>log.Fatalf\<close>. \<^verbatim>\<open>stat.Uid\<close> is a \<^verbatim>\<open>uint32\<close>, and \<^verbatim>\<open>uint32(userID)\<close>
  is \<open>word_of_int\<close>.
\<close>

definition setupEnvironment :: "sys \<Rightarrow> world \<Rightarrow> fatal + world" where
  "setupEnvironment sy w =
     (let userID = geteuid sy;
          dir = runtimeDir userID;
          w1 = w\<lparr>environ := (environ w)(''XDG_RUNTIME_DIR'' \<mapsto> dir)\<rparr>
      in if Stat sy dir w1 = Inl ErrNotExist
         then (case Mkdir sy dir (octal 7 0 0) w1 of
                 (Some e, w2) \<Rightarrow> Inl (CreateFailed e)
               | (None, w2) \<Rightarrow> Inr w2)
         else (case Stat sy dir w1 of
                 Inl e \<Rightarrow> Inl (StatFailed e)
               | Inr info \<Rightarrow>
                   if \<not> statHasUid sy then Inl NoOwnerInfo
                   else if owner info \<noteq> word_of_int userID
                   then Inl (WrongOwner dir (owner info) userID)
                   else Inr w1))"

text \<open>
  \<^verbatim>\<open>main\<close>, lines 251 to 257: the model is built, and the program started, only when
  \<^verbatim>\<open>setupEnvironment\<close> returns.
\<close>

definition main :: "sys \<Rightarrow> world \<Rightarrow> fatal + (model \<times> world)" where
  "main sy w =
     (case setupEnvironment sy w of
        Inl f \<Rightarrow> Inl f
      | Inr w' \<Rightarrow> Inr (initialModel, w'))"

text \<open>
  \<^verbatim>\<open>setupEnvironment\<close> of the second file, lines 208 to 224: a failed \<^verbatim>\<open>Mkdir\<close> is
  logged (the first component) and the program goes on; an existing directory is not
  looked at.
\<close>

definition setupEnvironment_p0 :: "sys \<Rightarrow> world \<Rightarrow> error option \<times> world" where
  "setupEnvironment_p0 sy w =
     (let userID = geteuid sy;
          dir = runtimeDir userID;
          w1 = w\<lparr>environ := (environ w)(''XDG_RUNTIME_DIR'' \<mapsto> dir)\<rparr>
      in if Stat sy dir w1 = Inl ErrNotExist
         then Mkdir sy dir (octal 7 0 0) w1
         else (None, w1))"

subsection \<open>The controller of the second file\<close>

record model_p0 =
  choices_p0 :: "string list"
  cursor_p0 :: int
  selected_p0 :: string
  quitting_p0 :: bool
  logs_p0 :: "string list"
  progress_p0 :: string
  isProcessing_p0 :: bool

definition initialModel_p0 :: model_p0 where
  "initialModel_p0 =
     \<lparr>choices_p0 = [''Install Niri'', ''Configure Niri'', ''Validate Config'', ''Save Logs'', ''Exit''],
      cursor_p0 = 0, selected_p0 = [], quitting_p0 = False, logs_p0 = [], progress_p0 = [],
      isProcessing_p0 = False\<rparr>"

text \<open>
  \<^verbatim>\<open>Update\<close> of the second file, lines 45 to 87. \<open>errorText\<close> is the \<^verbatim>\<open>Error()\<close>
  method of the error values, which \<^verbatim>\<open>%v\<close> prints.
\<close>

definition enter_p0 :: "model_p0 \<Rightarrow> panic + (model_p0 \<times> model_p0 cmd)" where
  "enter_p0 m =
     (case index (choices_p0 m) (cursor_p0 m) of
        None \<Rightarrow> Inl IndexOutOfRange
      | Some c \<Rightarrow>
          (let m1 = m\<lparr>selected_p0 := c, isProcessing_p0 := True\<rparr> in
           if c = ''Install Niri'' then Inr (m1, InstallNiri)
           else if c = ''Configure Niri'' then Inr (m1, ConfigureNiri)
           else if c = ''Validate Config'' then Inr (m1, ValidateNiriConfig)
           else if c = ''Save Logs'' then Inr (m1, SaveLogsToFile m1)
           else if c = ''Exit'' then Inr (m1\<lparr>quitting_p0 := True\<rparr>, Quit)
           else Inr (m1, NoCmd)))"

definition Update_p0 :: "(error \<Rightarrow> string) \<Rightarrow> model_p0 \<Rightarrow> msg \<Rightarrow> panic + (model_p0 \<times> model_p0 cmd)" where
  "Update_p0 errorText m x =
     (case x of
        KeyMsg k \<Rightarrow>
          if k = ''ctrl+c'' \<or> k = ''q'' then Inr (m, Quit)
          else if k = ''up'' then
            Inr (if cursor_p0 m > 0 then m\<lparr>cursor_p0 := cursor_p0 m - 1\<rparr> else m, NoCmd)
          else if k = ''down'' then
            Inr (if cursor_p0 m < int (length (choices_p0 m)) - 1
                 then m\<lparr>cursor_p0 := cursor_p0 m + 1\<rparr> else m, NoCmd)
          else if k = ''enter'' then enter_p0 m
          else Inr (m, NoCmd)
      | StatusMsg s \<Rightarrow>
          (let m1 = m\<lparr>logs_p0 := logs_p0 m @ [status s], isProcessing_p0 := False\<rparr>
           in case err s of
                Some e \<Rightarrow> Inr (m1\<lparr>logs_p0 := logs_p0 m1 @ [''Error: '' @ errorText e]\<rparr>, NoCmd)
              | None \<Rightarrow> Inr (m1, NoCmd))
      | OtherMsg \<Rightarrow> Inr (m, NoCmd))"

fun run_p0 :: "(error \<Rightarrow> string) \<Rightarrow> model_p0 \<Rightarrow> msg list \<Rightarrow> panic + (model_p0 \<times> model_p0 cmd list)" where
  "run_p0 errorText m [] = Inr (m, [])"
| "run_p0 errorText m (x # xs) =
     (case Update_p0 errorText m x of
        Inl p \<Rightarrow> Inl p
      | Inr (m', c) \<Rightarrow>
          (case run_p0 errorText m' xs of
             Inl p \<Rightarrow> Inl p
           | Inr (m'', cs) \<Rightarrow> Inr (m'', c # cs)))"

subsection \<open>Notions the statements use\<close>

text \<open>
  What the package manager prints and how it ends when \<^verbatim>\<open>installNiri\<close>, started on
  the machine \<open>w\<close>, starts it for package \<open>i\<close> of the list after the packages before it.
\<close>

definition outcomeAt :: "sys \<Rightarrow> world \<Rightarrow> nat \<Rightarrow> string \<times> outcome" where
  "outcomeAt sy w i = command sy (commands w @ map pkgCommand (take i pkgs)) (pkgCommand (pkgs ! i))"

text \<open>What the install loop of the second file has printed after the packages \<open>ps\<close>.\<close>

definition printed :: "string list \<Rightarrow> string" where
  "printed ps = concat (map (\<lambda>p. ''Successfully installed '' @ p @ nl) ps)"



text \<open>The lines of a log as \<^verbatim>\<open>saveLogsToFile\<close> writes them, each ended by a newline.\<close>

definition logText :: "string list \<Rightarrow> string" where
  "logText lines = concat (map (\<lambda>l. l @ nl) lines)"



text \<open>The number a string of decimal digits denotes.\<close>

definition digitVal :: "char \<Rightarrow> nat" where
  "digitVal c = of_char c - 48"

definition valueOf :: "string \<Rightarrow> nat" where
  "valueOf ds = foldl (\<lambda>v c. 10 * v + digitVal c) 0 ds"

text \<open>
  For counting along a run: the messages that are completions, and whether a model waits
  for one (it is on a screen other than the menu).
\<close>

definition isStatus :: "msg \<Rightarrow> bool" where
  "isStatus x = (case x of StatusMsg s \<Rightarrow> True | _ \<Rightarrow> False)"

definition outstanding :: "model \<Rightarrow> nat" where
  "outstanding m = (if state m = menuView then 0 else 1)"

text \<open>The menu as \<^verbatim>\<open>renderMenuView\<close> draws it with the cursor on entry \<open>cur\<close> and a message below.\<close>

definition menuFrame :: "lipgloss \<Rightarrow> int \<Rightarrow> string \<Rightarrow> string" where
  "menuFrame lg cur shown =
     padding lg (''NiriSetup Assistant for FreeBSD'' @ nl @ nl @ menuLines cur 0 menuChoices
                 @ nl @ foreground lg shown @ nl)"

subsection \<open>Concrete inputs\<close>

text \<open>Models of \<^verbatim>\<open>NiriSetup.go\<close> that short runs from \<open>initialModel\<close> reach.\<close>

definition exitConfirmed :: model where
  "exitConfirmed = initialModel\<lparr>cursor := 4, selected := ''Exit'', isProcessing := True\<rparr>"

definition installing :: model where
  "installing =
     initialModel\<lparr>state := installView, selected := ''Install Niri'', isProcessing := True\<rparr>"

definition stuck :: model where
  "stuck =
     initialModel\<lparr>state := actionView, cursor := 2, selected := ''Validate Config'',
                  logs := [''Validation failed: bad config''], isProcessing := False,
                  actionMsg := ''Validating Niri config...''\<rparr>"

text \<open>The completion of a failed validation, and of a configuration.\<close>

definition validateFailed :: statusMsg where
  "validateFailed = \<lparr>status = ''Validation failed: bad config'', err = Some (ExitError 1)\<rparr>"

definition configured :: statusMsg where
  "configured = \<lparr>status = ''Niri configuration completed successfully.'', err = None\<rparr>"

text \<open>
  An empty machine; a system of user 1001 without faults where every command succeeds;
  one whose package manager does not know \<^verbatim>\<open>seatd\<close>; and one whose validator rejects
  the configuration.
\<close>

definition world0 :: world where
  "world0 = \<lparr>fs = Map.empty, environ = Map.empty, commands = [], console = []\<rparr>"

definition sys0 :: sys where
  "sys0 = \<lparr>geteuid = 1001,
     command = (\<lambda>h argv. ([], Exited 0)),
     statFault = (\<lambda>p. None), statHasUid = True, mkdirFault = (\<lambda>p. None), openFault = (\<lambda>p. None),
     writeFault = (\<lambda>p c d. None), copyFault = (\<lambda>s d. None), getwd = Inr ''/home/u/NiriSetup'',
     userHomeDir = ''/home/u'', tempDir = ''/tmp''\<rparr>"

definition sysNoSeatd :: sys where
  "sysNoSeatd = sys0\<lparr>command := (\<lambda>h argv. if argv = pkgCommand ''seatd''
                 then (''pkg: No packages available to install matching seatd'', Exited 1)
                 else ([], Exited 0))\<rparr>"

definition sysInvalid :: sys where
  "sysInvalid = sys0\<lparr>command := (\<lambda>h argv. (''bad config'', Exited 1))\<rparr>"

text \<open>A machine where the runtime directory of user 1001 exists and belongs to root.\<close>

definition rootOwned :: inode where
  "rootOwned = \<lparr>owner = 0, perm = octal 7 0 0, isDir = True, content = []\<rparr>"

definition worldForeign :: world where
  "worldForeign = world0\<lparr>fs := [''/tmp/1001-runtime-dir'' \<mapsto> rootOwned]\<rparr>"



section \<open>The controller of NiriSetup.go\<close>

lemmas controller_defs =
  Update_def menuKey_def enter_def onStatus_def index_def initialModel_def Let_def

lemma cursor_cases:
  assumes "0 \<le> (c::int)" "c \<le> 4"
  shows "c = 0 \<or> c = 1 \<or> c = 2 \<or> c = 3 \<or> c = 4"
  using assms by arith

lemma enter_wellFormed:
  assumes "wellFormed m"
  shows "\<exists>m' c. enter m = Inr (m', c) \<and> wellFormed m' \<and> isProcessing m' \<and> cursor m' = cursor m \<and>
           index (choices m) (cursor m) = Some (selected m') \<and>
           ((c = Quit \<and> selected m' = ''Exit'' \<and> state m' = state m) \<or>
            (isRunner c \<and> state m' \<noteq> menuView)) \<and>
           ((selected m' = ''Install Niri'' \<and> c = InstallNiri \<and> state m' = installView)
            \<or> (selected m' = ''Configure Niri'' \<and> c = ConfigureNiri \<and> state m' = actionView)
            \<or> (selected m' = ''Validate Config'' \<and> c = ValidateNiriConfig \<and> state m' = actionView)
            \<or> (selected m' = ''Save Logs'' \<and> c = SaveLogsToFile m' \<and> state m' = actionView)
            \<or> (selected m' = ''Exit'' \<and> c = Quit \<and> state m' = state m))"
proof -
  from assms have ch: "choices m = menuChoices" and "0 \<le> cursor m" "cursor m \<le> 4"
    by (simp_all add: wellFormed_def)
  then consider "cursor m = 0" | "cursor m = 1" | "cursor m = 2" | "cursor m = 3" | "cursor m = 4"
    using cursor_cases by blast
  then show ?thesis
    by cases (simp_all add: enter_def index_def ch menuChoices_def wellFormed_def Let_def isRunner_def)
qed

lemma menuKey_wellFormed:
  assumes "wellFormed m"
  shows "\<exists>m' c. menuKey m k = Inr (m', c) \<and> wellFormed m' \<and>
           (guarded m \<and> state m = menuView \<longrightarrow> guarded m')"
proof (cases "k = ''enter''")
  case True
  from enter_wellFormed [OF assms] obtain m' c where
    e: "enter m = Inr (m', c)" "wellFormed m'" "isProcessing m'"
      "(c = Quit \<and> selected m' = ''Exit'' \<and> state m' = state m) \<or>
       (isRunner c \<and> state m' \<noteq> menuView)"
    by blast
  then have "guarded m'" by (auto simp: guarded_def)
  with e True show ?thesis by (simp add: menuKey_def)
next
  case False
  with assms show ?thesis
    by (auto simp: menuKey_def wellFormed_def guarded_def menuChoices_def)
qed

lemma onStatus_wellFormed: "wellFormed m \<Longrightarrow> wellFormed (onStatus m s)"
  by (simp add: onStatus_def wellFormed_def Let_def)

lemma onStatus_guarded: "guarded (onStatus m s)"
  by (simp add: onStatus_def guarded_def Let_def)

lemma Update_invariant:
  assumes "wellFormed m" "guarded m"
  shows "\<exists>m' c. Update m x = Inr (m', c) \<and> wellFormed m' \<and> guarded m'"
proof (cases x)
  case (KeyMsg k)
  show ?thesis
  proof (cases "state m")
    case menuView
    with menuKey_wellFormed [OF assms(1), of k] assms(2) KeyMsg show ?thesis
      by (auto simp: Update_def)
  next
    case installView
    with assms KeyMsg show ?thesis by (simp add: Update_def)
  next
    case actionView
    with assms KeyMsg show ?thesis by (simp add: Update_def)
  qed
next
  case (StatusMsg s)
  with assms show ?thesis
    by (simp add: Update_def onStatus_wellFormed onStatus_guarded)
next
  case OtherMsg
  with assms show ?thesis by (simp add: Update_def)
qed

lemma run_invariant:
  assumes "wellFormed m" "guarded m"
  shows "\<exists>m' cs. run m xs = Inr (m', cs) \<and> wellFormed m' \<and> guarded m'"
  using assms
proof (induction xs arbitrary: m)
  case Nil
  then show ?case by simp
next
  case (Cons x xs)
  from Update_invariant [OF Cons.prems, of x] obtain m1 c where
    u: "Update m x = Inr (m1, c)" "wellFormed m1" "guarded m1" by blast
  from Cons.IH [OF u(2,3)] obtain m2 cs where
    r: "run m1 xs = Inr (m2, cs)" "wellFormed m2" "guarded m2" by blast
  with u show ?case by simp
qed

lemma initialModel_wellFormed: "wellFormed initialModel"
  by (simp add: wellFormed_def initialModel_def menuChoices_def)

lemma initialModel_guarded: "guarded initialModel"
  by (simp add: guarded_def initialModel_def)

lemma reachable_invariant:
  "\<exists>m cs. run initialModel msgs = Inr (m, cs) \<and> wellFormed m \<and> guarded m"
  by (rule run_invariant [OF initialModel_wellFormed initialModel_guarded])

lemma running_ignores_keys: "state m \<noteq> menuView \<Longrightarrow> Update m (KeyMsg k) = Inr (m, NoCmd)"
  by (cases "state m") (simp_all add: Update_def)

lemma Update_not_menu:
  assumes "state m \<noteq> menuView" "Update m x = Inr (m', c)"
  shows "cursor m' = cursor m \<and> c = NoCmd"
proof (cases x)
  case (KeyMsg k)
  with assms running_ignores_keys [OF assms(1), of k] show ?thesis by simp
next
  case (StatusMsg s)
  with assms show ?thesis by (auto simp: Update_def onStatus_def Let_def)
next
  case OtherMsg
  with assms show ?thesis by (auto simp: Update_def)
qed

lemma menu_up:
  "state m = menuView \<Longrightarrow> 0 \<le> cursor m \<Longrightarrow>
   \<exists>m'. Update m (KeyMsg ''up'') = Inr (m', NoCmd) \<and> cursor m' = max 0 (cursor m - 1)"
  by (simp add: Update_def menuKey_def)

lemma menu_down:
  "state m = menuView \<Longrightarrow> cursor m \<le> int (length (choices m)) - 1 \<Longrightarrow>
   \<exists>m'. Update m (KeyMsg ''down'') = Inr (m', NoCmd)
        \<and> cursor m' = min (int (length (choices m)) - 1) (cursor m + 1)"
  by (simp add: Update_def menuKey_def)

text \<open>
  Claim C5. After every sequence of messages from the initial model (key presses,
  completions and anything else), the run has not panicked and the cursor is within
  \<open>0\<close> and the number of menu entries minus one. On the menu screen \<^verbatim>\<open>up\<close> and
  \<^verbatim>\<open>down\<close> move it by one and stop at the bounds, with no wrap-around. On any other
  screen no message changes the cursor.
\<close>

theorem cursor_stays_in_bounds:
  "\<exists>m cs. run initialModel msgs = Inr (m, cs)
     \<and> 0 \<le> cursor m \<and> cursor m \<le> int (length (choices m)) - 1
     \<and> (state m = menuView \<longrightarrow>
          (\<exists>m'. Update m (KeyMsg ''up'') = Inr (m', NoCmd) \<and> cursor m' = max 0 (cursor m - 1))
        \<and> (\<exists>m'. Update m (KeyMsg ''down'') = Inr (m', NoCmd)
                \<and> cursor m' = min (int (length (choices m)) - 1) (cursor m + 1)))
     \<and> (state m \<noteq> menuView \<longrightarrow>
          (\<forall>x m' c. Update m x = Inr (m', c) \<longrightarrow> cursor m' = cursor m))"
proof -
  from reachable_invariant [of msgs] obtain m cs where
    r: "run initialModel msgs = Inr (m, cs)" and wf: "wellFormed m" by blast
  from wf have b: "0 \<le> cursor m" "cursor m \<le> int (length (choices m)) - 1"
    by (simp_all add: wellFormed_def menuChoices_def)
  have "state m \<noteq> menuView \<longrightarrow> (\<forall>x m' c. Update m x = Inr (m', c) \<longrightarrow> cursor m' = cursor m)"
    using Update_not_menu by blast
  with r b menu_up [of m] menu_down [of m] show ?thesis by blast
qed

text \<open>
  Seven key presses on the menu leave the cursor on the last entry, where one more
  \<^verbatim>\<open>down\<close> does not move it; and after \<^verbatim>\<open>Configure Niri\<close> is confirmed, \<^verbatim>\<open>down\<close> no
  longer moves it.
\<close>

theorem cursor_stays_in_bounds_witness:
  "(\<exists>m cs. run initialModel [KeyMsg ''up'', KeyMsg ''down'', KeyMsg ''down'', KeyMsg ''down'',
                              KeyMsg ''down'', KeyMsg ''down'', KeyMsg ''down''] = Inr (m, cs)
      \<and> state m = menuView \<and> cursor m = 4
      \<and> (\<exists>m'. Update m (KeyMsg ''down'') = Inr (m', NoCmd) \<and> cursor m' = 4))
   \<and> (\<exists>m cs. run initialModel [KeyMsg ''down'', KeyMsg ''enter''] = Inr (m, cs)
      \<and> state m = actionView \<and> cursor m = 1
      \<and> Update m (KeyMsg ''down'') = Inr (m, NoCmd))"
  using cursor_stays_in_bounds [of "[KeyMsg ''up'', KeyMsg ''down'', KeyMsg ''down'', KeyMsg ''down'',
                                     KeyMsg ''down'', KeyMsg ''down'', KeyMsg ''down'']"]
    cursor_stays_in_bounds [of "[KeyMsg ''down'', KeyMsg ''enter'']"]
  by (simp add: controller_defs)

lemma enter_reachable:
  assumes "wellFormed m" "state m = menuView"
  shows "\<exists>m' c. Update m (KeyMsg ''enter'') = Inr (m', c) \<and> isProcessing m'
           \<and> index (choices m) (cursor m) = Some (selected m')
           \<and> ((selected m' = ''Install Niri'' \<and> c = InstallNiri \<and> state m' = installView)
              \<or> (selected m' = ''Configure Niri'' \<and> c = ConfigureNiri \<and> state m' = actionView)
              \<or> (selected m' = ''Validate Config'' \<and> c = ValidateNiriConfig
                  \<and> state m' = actionView)
              \<or> (selected m' = ''Save Logs'' \<and> c = SaveLogsToFile m' \<and> state m' = actionView)
              \<or> (selected m' = ''Exit'' \<and> c = Quit \<and> state m' = menuView))"
proof -
  from enter_wellFormed [OF assms(1)] obtain m' c where
    e: "enter m = Inr (m', c)" "isProcessing m'"
      "index (choices m) (cursor m) = Some (selected m')"
      "(selected m' = ''Install Niri'' \<and> c = InstallNiri \<and> state m' = installView)
        \<or> (selected m' = ''Configure Niri'' \<and> c = ConfigureNiri \<and> state m' = actionView)
        \<or> (selected m' = ''Validate Config'' \<and> c = ValidateNiriConfig \<and> state m' = actionView)
        \<or> (selected m' = ''Save Logs'' \<and> c = SaveLogsToFile m' \<and> state m' = actionView)
        \<or> (selected m' = ''Exit'' \<and> c = Quit \<and> state m' = state m)"
    by blast
  have u: "Update m (KeyMsg ''enter'') = enter m"
    using assms(2) by (simp add: Update_def menuKey_def)
  from e u assms(2) show ?thesis by auto
qed

text \<open>
  Claim C1, as amended. After every sequence of messages from the initial model of
  \<^verbatim>\<open>NiriSetup.go\<close>: if \<^verbatim>\<open>isProcessing\<close> is set then the screen is not the menu, unless
  \<^verbatim>\<open>Exit\<close> is the entry that was confirmed; a confirm on the menu selects the entry
  under the cursor, sets \<^verbatim>\<open>isProcessing\<close> and returns exactly one command, the runner
  of that entry (\<^verbatim>\<open>installNiri\<close> for \<^verbatim>\<open>Install Niri\<close> with the install screen,
  \<^verbatim>\<open>configureNiri\<close>, \<^verbatim>\<open>validateNiriConfig\<close> or \<^verbatim>\<open>saveLogsToFile\<close> of the new model for
  their entries with the action screen) or the quit command for \<^verbatim>\<open>Exit\<close> (and the
  menu stays); and while \<^verbatim>\<open>isProcessing\<close> is set on a screen other than the menu, no
  message makes \<^verbatim>\<open>Update\<close> return a command, and every key press, a second confirm
  included, leaves the model as it is.
\<close>

theorem one_action_at_a_time:
  "\<exists>m cs. run initialModel msgs = Inr (m, cs)
     \<and> choices m = menuChoices
     \<and> (isProcessing m \<longrightarrow> state m \<noteq> menuView \<or> selected m = ''Exit'')
     \<and> (state m = menuView \<longrightarrow>
          (\<exists>m' c. Update m (KeyMsg ''enter'') = Inr (m', c) \<and> isProcessing m'
             \<and> index (choices m) (cursor m) = Some (selected m')
             \<and> ((selected m' = ''Install Niri'' \<and> c = InstallNiri \<and> state m' = installView)
                \<or> (selected m' = ''Configure Niri'' \<and> c = ConfigureNiri
                    \<and> state m' = actionView)
                \<or> (selected m' = ''Validate Config'' \<and> c = ValidateNiriConfig
                    \<and> state m' = actionView)
                \<or> (selected m' = ''Save Logs'' \<and> c = SaveLogsToFile m'
                    \<and> state m' = actionView)
                \<or> (selected m' = ''Exit'' \<and> c = Quit \<and> state m' = menuView))))
     \<and> (isProcessing m \<and> state m \<noteq> menuView \<longrightarrow>
          (\<forall>x m' c. Update m x = Inr (m', c) \<longrightarrow> c = NoCmd)
        \<and> (\<forall>k. Update m (KeyMsg k) = Inr (m, NoCmd)))"
proof -
  from reachable_invariant [of msgs] obtain m cs where
    r: "run initialModel msgs = Inr (m, cs)" and wf: "wellFormed m" and g: "guarded m" by blast
  from g have 1: "isProcessing m \<longrightarrow> state m \<noteq> menuView \<or> selected m = ''Exit''"
    by (auto simp: guarded_def)
  have 2: "state m = menuView \<longrightarrow>
          (\<exists>m' c. Update m (KeyMsg ''enter'') = Inr (m', c) \<and> isProcessing m'
             \<and> index (choices m) (cursor m) = Some (selected m')
             \<and> ((selected m' = ''Install Niri'' \<and> c = InstallNiri \<and> state m' = installView)
                \<or> (selected m' = ''Configure Niri'' \<and> c = ConfigureNiri
                    \<and> state m' = actionView)
                \<or> (selected m' = ''Validate Config'' \<and> c = ValidateNiriConfig
                    \<and> state m' = actionView)
                \<or> (selected m' = ''Save Logs'' \<and> c = SaveLogsToFile m'
                    \<and> state m' = actionView)
                \<or> (selected m' = ''Exit'' \<and> c = Quit \<and> state m' = menuView)))"
    using enter_reachable [OF wf] by blast
  have 3: "isProcessing m \<and> state m \<noteq> menuView \<longrightarrow>
          (\<forall>x m' c. Update m x = Inr (m', c) \<longrightarrow> c = NoCmd)
        \<and> (\<forall>k. Update m (KeyMsg k) = Inr (m, NoCmd))"
    using Update_not_menu running_ignores_keys by blast
  from wf have 0: "choices m = menuChoices"
    by (simp add: wellFormed_def)
  from r 0 1 2 3 show ?thesis by blast
qed

text \<open>
  \<^verbatim>\<open>Configure Niri\<close> confirmed twice in a row: one runner is returned, and the second
  confirm changes nothing. On the initial menu a confirm starts the install runner.
\<close>

theorem one_action_at_a_time_witness:
  "(\<exists>m cs. run initialModel [KeyMsg ''down'', KeyMsg ''enter'', KeyMsg ''enter''] = Inr (m, cs)
      \<and> cs = [NoCmd, ConfigureNiri, NoCmd]
      \<and> isProcessing m \<and> state m = actionView
      \<and> Update m (KeyMsg ''enter'') = Inr (m, NoCmd))
   \<and> (\<exists>m cs. run initialModel [] = Inr (m, cs) \<and> state m = menuView
      \<and> (\<exists>m'. Update m (KeyMsg ''enter'') = Inr (m', InstallNiri) \<and> isProcessing m'
               \<and> selected m' = ''Install Niri'' \<and> state m' = installView))"
  using one_action_at_a_time [of "[KeyMsg ''down'', KeyMsg ''enter'', KeyMsg ''enter'']"]
    one_action_at_a_time [of "[]"]
  by (simp add: controller_defs menuChoices_def)

text \<open>
  Claim C1 as stated fails when \<^verbatim>\<open>Exit\<close> is confirmed: line 70 sets \<^verbatim>\<open>isProcessing\<close>
  before the switch on the entry, and the \<^verbatim>\<open>Exit\<close> case returns on the menu screen.
\<close>

theorem exit_sets_isProcessing_on_menu:
  "run initialModel [KeyMsg ''down'', KeyMsg ''down'', KeyMsg ''down'', KeyMsg ''down'', KeyMsg ''enter'']
     = Inr (exitConfirmed, [NoCmd, NoCmd, NoCmd, NoCmd, Quit])
   \<and> isProcessing exitConfirmed \<and> state exitConfirmed = menuView"
  by (simp add: controller_defs exitConfirmed_def)

text \<open>
  Along every run from the initial model, the runners returned so far are at most one
  more than the completions received so far: a runner is never returned while another
  one is awaited.
\<close>

lemma Update_outstanding:
  assumes "wellFormed m" "Update m x = Inr (m', c)"
  shows "(if isRunner c then 1 else 0) + outstanding m \<le> (if isStatus x then 1 else 0) + outstanding m'"
proof (cases x)
  case (KeyMsg k)
  show ?thesis
  proof (cases "state m = menuView")
    case True
    show ?thesis
    proof (cases "k = ''enter''")
      case e: True
      from enter_wellFormed [OF assms(1)] assms(2) KeyMsg True e show ?thesis
        by (auto simp: Update_def menuKey_def outstanding_def isStatus_def isRunner_def)
    next
      case False
      with assms(2) KeyMsg True show ?thesis
        by (auto simp: Update_def menuKey_def outstanding_def isStatus_def isRunner_def
            split: if_splits)
    qed
  next
    case False
    from running_ignores_keys [OF False, of k] assms(2) KeyMsg show ?thesis
      by (auto simp: isRunner_def)
  qed
next
  case (StatusMsg s)
  with assms(2) show ?thesis
    by (auto simp: Update_def outstanding_def isStatus_def isRunner_def)
next
  case OtherMsg
  with assms(2) show ?thesis
    by (auto simp: Update_def outstanding_def isStatus_def isRunner_def)
qed

lemma run_outstanding:
  assumes "wellFormed m" "guarded m" "run m xs = Inr (m', cs)"
  shows "length (filter isRunner cs) + outstanding m \<le> length (filter isStatus xs) + outstanding m'"
  using assms
proof (induction xs arbitrary: m cs)
  case Nil
  then show ?case by simp
next
  case (Cons x xs)
  from Update_invariant [OF Cons.prems(1,2), of x] obtain m1 c where
    u: "Update m x = Inr (m1, c)" "wellFormed m1" "guarded m1" by blast
  with Cons.prems(3) obtain cs1 where r: "run m1 xs = Inr (m', cs1)" "cs = c # cs1"
    by (auto split: sum.splits)
  from Cons.IH [OF u(2,3) r(1)] Update_outstanding [OF Cons.prems(1) u(1)] r(2)
  show ?case by (auto split: if_splits)
qed

lemma at_most_one_runner_outstanding:
  assumes "run initialModel msgs = Inr (m, cs)"
  shows "length (filter isRunner cs) \<le> length (filter isStatus msgs) + 1"
  using run_outstanding [OF initialModel_wellFormed initialModel_guarded assms]
  by (simp add: outstanding_def split: if_splits)

text \<open>
  Claim C7, as amended. In \<^verbatim>\<open>NiriSetup.go\<close> the quit keys (\<^verbatim>\<open>q\<close>, \<^verbatim>\<open>ctrl+c\<close>) end the
  program on the menu screen; while an action is running (\<^verbatim>\<open>isProcessing\<close> is set, on
  the install or the action screen) every key press, the quit keys included, is dropped
  and the model stays as it is. The controller of the second file, which has no
  screens, returns the quit command for them in every model.
\<close>

theorem quit_only_on_menu:
  "(state m = menuView \<longrightarrow>
      Update m (KeyMsg ''q'') = Inr (m, Quit) \<and> Update m (KeyMsg ''ctrl+c'') = Inr (m, Quit))
   \<and> (isProcessing m \<and> state m \<noteq> menuView \<longrightarrow> Update m (KeyMsg k) = Inr (m, NoCmd))
   \<and> Update_p0 errorText n (KeyMsg ''q'') = Inr (n, Quit)
   \<and> Update_p0 errorText n (KeyMsg ''ctrl+c'') = Inr (n, Quit)"
  using running_ignores_keys [of m k]
  by (simp add: Update_def menuKey_def Update_p0_def)

text \<open>The initial menu, and the model while the install runs.\<close>

theorem quit_only_on_menu_witness:
  "state initialModel = menuView \<and> Update initialModel (KeyMsg ''q'') = Inr (initialModel, Quit)
   \<and> isProcessing installing \<and> state installing \<noteq> menuView
   \<and> Update installing (KeyMsg ''q'') = Inr (installing, NoCmd)"
  using quit_only_on_menu [of initialModel "''q''" "\<lambda>e. []" initialModel_p0]
    quit_only_on_menu [of installing "''q''" "\<lambda>e. []" initialModel_p0]
  by (simp add: initialModel_def installing_def)

text \<open>
  Claim C7 as stated fails while an action runs: after the install is confirmed, both
  quit keys return no command.
\<close>

theorem quit_ignored_while_running:
  "run initialModel [KeyMsg ''enter'', KeyMsg ''q'', KeyMsg ''ctrl+c'']
     = Inr (installing, [InstallNiri, NoCmd, NoCmd])
   \<and> state installing = installView \<and> isProcessing installing"
  by (simp add: controller_defs installing_def)

subsection \<open>The controller of the second file\<close>

text \<open>
  The second file has no screens and no guard on \<^verbatim>\<open>isProcessing\<close>: a second confirm
  returns a second runner. Its cursor is clamped like the one of \<^verbatim>\<open>NiriSetup.go\<close>.
\<close>

lemma second_confirm_dispatches_again_p0:
  "run_p0 errorText initialModel_p0 [KeyMsg ''enter'', KeyMsg ''enter'']
     = Inr (initialModel_p0\<lparr>selected_p0 := ''Install Niri'', isProcessing_p0 := True\<rparr>,
            [InstallNiri, InstallNiri])"
  by (simp add: Update_p0_def enter_p0_def index_def initialModel_p0_def Let_def)

lemma cursor_p0_in_bounds:
  assumes "Update_p0 errorText m x = Inr (m', c)"
    "0 \<le> cursor_p0 m" "cursor_p0 m \<le> int (length (choices_p0 m)) - 1"
  shows "0 \<le> cursor_p0 m' \<and> cursor_p0 m' \<le> int (length (choices_p0 m')) - 1"
proof (cases x)
  case (KeyMsg k)
  with assms show ?thesis
    by (auto simp: Update_p0_def enter_p0_def Let_def split: if_splits option.splits)
next
  case (StatusMsg s)
  with assms show ?thesis
    by (auto simp: Update_p0_def Let_def split: option.splits)
next
  case OtherMsg
  with assms show ?thesis by (auto simp: Update_p0_def)
qed

subsection \<open>Completion events\<close>

text \<open>
  What \<^verbatim>\<open>case statusMsg\<close> does with a completion that carries an error, and with one
  that does not.
\<close>

lemma onStatus_failure:
  "err s \<noteq> None \<Longrightarrow>
   onStatus m s = m\<lparr>logs := logs m @ [status s], isProcessing := False\<rparr>"
  by (auto simp: onStatus_def Let_def)

lemma onStatus_success:
  "err s = None \<Longrightarrow>
   onStatus m s =
     (case state m of
        menuView \<Rightarrow> m\<lparr>logs := logs m @ [status s], isProcessing := False\<rparr>
      | installView \<Rightarrow> m\<lparr>state := menuView, logs := [], isProcessing := False\<rparr>
      | actionView \<Rightarrow> m\<lparr>state := menuView, logs := logs m @ [status s], isProcessing := False,
                         actionMsg := status s\<rparr>)"
  by (cases "state m") (simp_all add: onStatus_def Let_def)

text \<open>
  Claim C2 does not hold of the code: a completion that reports a failure is appended
  to the log and clears \<^verbatim>\<open>isProcessing\<close>, but the screen stays the action screen and
  \<^verbatim>\<open>actionMsg\<close> keeps the text set when the action started. Here \<^verbatim>\<open>Validate Config\<close>
  is confirmed and the validator exits with status 1, so that the runner returns the
  message \<open>validateFailed\<close>; after it has arrived, a confirm and a quit key are both
  dropped.
\<close>

theorem failed_completion_stays_on_action_screen:
  "fst (validateNiriConfig sysInvalid world0) = validateFailed
   \<and> run initialModel [KeyMsg ''down'', KeyMsg ''down'', KeyMsg ''enter'', StatusMsg validateFailed,
                       KeyMsg ''enter'', KeyMsg ''q'']
       = Inr (stuck, [NoCmd, NoCmd, ValidateNiriConfig, NoCmd, NoCmd, NoCmd])
   \<and> state stuck = actionView \<and> \<not> isProcessing stuck
   \<and> actionMsg stuck = ''Validating Niri config...''"
  by (simp add: controller_defs validateFailed_def stuck_def validateNiriConfig_def
      CombinedOutput_def sysInvalid_def sys0_def world0_def)

subsection \<open>The one-shot message\<close>

lemma renderMenuView_clears_copy: "actionMsg (snd (renderMenuView lg m)) = []"
  by (simp add: renderMenuView_def Let_def)

lemma View_menu_shows_actionMsg:
  "state m = menuView \<Longrightarrow> actionMsg m \<noteq> [] \<Longrightarrow>
   View lg m =
     padding lg (''NiriSetup Assistant for FreeBSD'' @ nl @ nl @ menuLines (cursor m) 0 (choices m)
                 @ nl @ foreground lg (actionMsg m) @ nl)"
  by (simp add: View_def renderMenuView_def Let_def)

lemma navigation_keeps_actionMsg:
  assumes "Update m (KeyMsg k) = Inr (m', c)" "k \<noteq> ''enter''"
  shows "actionMsg m' = actionMsg m \<and> state m' = state m"
proof (cases "state m = menuView")
  case True
  with assms show ?thesis
    by (auto simp: Update_def menuKey_def split: if_splits)
next
  case False
  with assms running_ignores_keys [OF False, of k] show ?thesis by simp
qed

text \<open>
  Claim C10 does not hold of the code: \<^verbatim>\<open>renderMenuView\<close> clears \<^verbatim>\<open>actionMsg\<close> in its
  own copy of the model, so the model of the run keeps the message. After
  \<^verbatim>\<open>Configure Niri\<close> completes with the message \<open>configured\<close> its runner returns, the
  frame of the completion and the frames of the three messages after it all show the
  message.
\<close>

theorem actionMsg_shown_on_every_render:
  "fst (configureNiri sy w) = configured \<and> (\<exists>m v1 v2.
     frames lg initialModel [KeyMsg ''down'', KeyMsg ''enter'', StatusMsg configured,
                             KeyMsg ''down'', KeyMsg ''up'', OtherMsg]
       = Inr (m, [v1, v2,
                  menuFrame lg 1 (status configured), menuFrame lg 2 (status configured),
                  menuFrame lg 1 (status configured), menuFrame lg 1 (status configured)])
     \<and> state m = menuView \<and> actionMsg m = status configured)"
  by (simp add: controller_defs configured_def menuFrame_def View_def renderMenuView_def
      menuChoices_def configureNiri_def)

section \<open>The action runners\<close>

subsection \<open>Install: the package loop\<close>

lemma CombinedOutput_ok:
  "snd (command sy (commands w) argv) = Exited 0 \<Longrightarrow>
   CombinedOutput sy argv w = ((fst (command sy (commands w) argv), None), w\<lparr>commands := commands w @ [argv]\<rparr>)"
  by (auto simp: CombinedOutput_def split: prod.splits)

lemma CombinedOutput_failed:
  "snd (command sy (commands w) argv) \<noteq> Exited 0 \<Longrightarrow>
   \<exists>e. CombinedOutput sy argv w = ((fst (command sy (commands w) argv), Some e), w\<lparr>commands := commands w @ [argv]\<rparr>)"
  by (auto simp: CombinedOutput_def split: prod.splits outcome.splits)

lemma installLoop_fails:
  assumes "k < length ps"
    and "\<forall>i<k. snd (command sy (commands w @ map pkgCommand (take i ps)) (pkgCommand (ps ! i))) = Exited 0"
    and "snd (command sy (commands w @ map pkgCommand (take k ps)) (pkgCommand (ps ! k))) \<noteq> Exited 0"
  shows "installLoop sy ps lines w =
     (Inl \<lparr>status = ''Failed to install '' @ ps ! k,
           err = Some (Errorf (fst (command sy (commands w @ map pkgCommand (take k ps)) (pkgCommand (ps ! k)))))\<rparr>,
      w\<lparr>commands := commands w @ map pkgCommand (take (Suc k) ps)\<rparr>)"
  using assms
proof (induction ps arbitrary: k w lines)
  case Nil
  then show ?case by simp
next
  case (Cons p ps)
  show ?case
  proof (cases k)
    case 0
    with Cons.prems(3) have "snd (command sy (commands w) (pkgCommand p)) \<noteq> Exited 0" by simp
    from CombinedOutput_failed [OF this] 0 show ?thesis by auto
  next
    case (Suc j)
    from Cons.prems(2) Suc have ok: "snd (command sy (commands w) (pkgCommand p)) = Exited 0"
      by (auto dest: spec [of _ 0])
    let ?w = "w\<lparr>commands := commands w @ [pkgCommand p]\<rparr>"
    have j: "j < length ps" using Cons.prems(1) Suc by simp
    have a: "\<forall>i<j. snd (command sy (commands ?w @ map pkgCommand (take i ps)) (pkgCommand (ps ! i))) = Exited 0"
    proof (intro allI impI)
      fix i assume "i < j"
      then have "Suc i < k" using Suc by simp
      with Cons.prems(2) show "snd (command sy (commands ?w @ map pkgCommand (take i ps)) (pkgCommand (ps ! i))) = Exited 0"
        by (auto dest: spec [of _ "Suc i"])
    qed
    have b: "snd (command sy (commands ?w @ map pkgCommand (take j ps)) (pkgCommand (ps ! j))) \<noteq> Exited 0"
      using Cons.prems(3) Suc by simp
    from Cons.IH [OF j a b] CombinedOutput_ok [OF ok] Suc show ?thesis by simp
  qed
qed


lemma printed_Cons: "printed (p # ps) = ''Successfully installed '' @ p @ nl @ printed ps"
  by (simp add: printed_def)

lemma printed_Nil: "printed [] = []"
  by (simp add: printed_def)

lemma installLoop_p0_fails:
  assumes "k < length ps"
    and "\<forall>i<k. snd (command sy (commands w @ map pkgCommand (take i ps)) (pkgCommand (ps ! i))) = Exited 0"
    and "snd (command sy (commands w @ map pkgCommand (take k ps)) (pkgCommand (ps ! k))) \<noteq> Exited 0"
  shows "installLoop_p0 sy ps w =
     (Some \<lparr>status = ''Failed to install '' @ ps ! k,
            err = Some (Errorf (fst (command sy (commands w @ map pkgCommand (take k ps)) (pkgCommand (ps ! k)))))\<rparr>,
      w\<lparr>commands := commands w @ map pkgCommand (take (Suc k) ps),
        console := console w @ printed (take k ps)\<rparr>)"
  using assms
proof (induction ps arbitrary: k w)
  case Nil
  then show ?case by simp
next
  case (Cons p ps)
  show ?case
  proof (cases k)
    case 0
    with Cons.prems(3) have "snd (command sy (commands w) (pkgCommand p)) \<noteq> Exited 0" by simp
    from CombinedOutput_failed [OF this] 0 show ?thesis by (auto simp: printed_Nil)
  next
    case (Suc j)
    from Cons.prems(2) Suc have ok: "snd (command sy (commands w) (pkgCommand p)) = Exited 0"
      by (auto dest: spec [of _ 0])
    let ?w = "w\<lparr>commands := commands w @ [pkgCommand p],
                 console := console w @ ''Successfully installed '' @ p @ nl\<rparr>"
    have j: "j < length ps" using Cons.prems(1) Suc by simp
    have a: "\<forall>i<j. snd (command sy (commands ?w @ map pkgCommand (take i ps)) (pkgCommand (ps ! i))) = Exited 0"
    proof (intro allI impI)
      fix i assume "i < j"
      then have "Suc i < k" using Suc by simp
      with Cons.prems(2) show "snd (command sy (commands ?w @ map pkgCommand (take i ps)) (pkgCommand (ps ! i))) = Exited 0"
        by (auto dest: spec [of _ "Suc i"])
    qed
    have b: "snd (command sy (commands ?w @ map pkgCommand (take j ps)) (pkgCommand (ps ! j))) \<noteq> Exited 0"
      using Cons.prems(3) Suc by simp
    from Cons.IH [OF j a b] CombinedOutput_ok [OF ok] Suc show ?thesis
      by (simp add: printed_Cons)
  qed
qed


text \<open>
  Claim C3. When the package manager fails for package \<open>k\<close> of the list, having
  succeeded for the packages before it, the install runner (of either file) returns a
  result with a non-nil error whose message is \<^verbatim>\<open>Failed to install\<close> followed by the
  name of package \<open>k\<close>, and the commands it has started are those of packages \<open>0\<close> to
  \<open>k\<close> in order and no other: no package after \<open>k\<close> is attempted.
\<close>

theorem install_stops_at_first_failure:
  assumes "k < length pkgs"
    and "\<forall>i<k. snd (outcomeAt sy w i) = Exited 0"
    and "snd (outcomeAt sy w k) \<noteq> Exited 0"
  shows "installNiri sy w =
           (\<lparr>status = ''Failed to install '' @ pkgs ! k, err = Some (Errorf (fst (outcomeAt sy w k)))\<rparr>,
            w\<lparr>commands := commands w @ map pkgCommand (take (Suc k) pkgs)\<rparr>)
       \<and> installNiri_p0 sy w =
           (\<lparr>status = ''Failed to install '' @ pkgs ! k, err = Some (Errorf (fst (outcomeAt sy w k)))\<rparr>,
            w\<lparr>commands := commands w @ map pkgCommand (take (Suc k) pkgs),
              console := console w @ printed (take k pkgs)\<rparr>)"
proof -
  note h = assms [unfolded outcomeAt_def]
  from installLoop_fails [OF h, of "[]"] installLoop_p0_fails [OF h]
  show ?thesis by (simp add: installNiri_def installNiri_p0_def outcomeAt_def)
qed

text \<open>
  With a package manager that fails on \<^verbatim>\<open>seatd\<close>, the fourth package, four commands
  are started and the result names \<^verbatim>\<open>seatd\<close>.
\<close>

theorem install_stops_at_first_failure_witness:
  "installNiri sysNoSeatd world0 =
     (\<lparr>status = ''Failed to install seatd'',
       err = Some (Errorf ''pkg: No packages available to install matching seatd'')\<rparr>,
      world0\<lparr>commands := map pkgCommand [''niri'', ''wlroots'', ''xwayland-satellite'', ''seatd'']\<rparr>)
   \<and> installNiri_p0 sysNoSeatd world0 =
     (\<lparr>status = ''Failed to install seatd'',
       err = Some (Errorf ''pkg: No packages available to install matching seatd'')\<rparr>,
      world0\<lparr>commands := map pkgCommand [''niri'', ''wlroots'', ''xwayland-satellite'', ''seatd''],
             console := printed [''niri'', ''wlroots'', ''xwayland-satellite'']\<rparr>)"
proof -
  have 1: "3 < length pkgs" by (simp add: pkgs_def)
  have 2: "\<forall>i<3. snd (outcomeAt sysNoSeatd world0 i) = Exited 0"
    by (simp add: less_Suc_eq numeral_3_eq_3 outcomeAt_def sysNoSeatd_def sys0_def pkgs_def
        pkgCommand_def all_conj_distrib)
  have 3: "snd (outcomeAt sysNoSeatd world0 3) \<noteq> Exited 0"
    by (simp add: outcomeAt_def sysNoSeatd_def sys0_def pkgs_def pkgCommand_def numeral_3_eq_3)
  from install_stops_at_first_failure [OF 1 2 3] show ?thesis
    by (simp add: outcomeAt_def sysNoSeatd_def sys0_def pkgs_def pkgCommand_def numeral_3_eq_3
        world0_def)
qed





subsection \<open>Install: the configuration file (second file)\<close>

lemma foldl_mkdirIfAbsent:
  "foldl (mkdirIfAbsent sy pm) f ds q =
     (if f q = None \<and> q \<in> set ds then Some (newDir sy pm) else f q)"
  by (induction ds arbitrary: f) (auto simp: mkdirIfAbsent_def)

lemma pathPrefixes_last: "acc @ cs \<in> set (pathPrefixes acc cs)"
proof (induction cs arbitrary: acc)
  case Nil
  show ?case by simp
next
  case (Cons c cs)
  from Cons [of "acc @ [c]"] show ?case by auto
qed


lemma MkdirAll_ok:
  assumes "mkdirFault sy p = None" "\<not> list_ex (isFileAt w) (pathPrefixes [] p)"
  shows "MkdirAll sy p pm w =
           (None, w\<lparr>fs := foldl (mkdirIfAbsent sy pm) (fs w) (pathPrefixes [] p)\<rparr>)"
  using assms by (simp add: MkdirAll_def)

lemma MkdirAll_isDir:
  assumes "mkdirFault sy p = None" "\<not> list_ex (isFileAt w) (pathPrefixes [] p)"
  shows "isDirAt (snd (MkdirAll sy p pm w)) p"
proof -
  have m: "p \<in> set (pathPrefixes [] p)" using pathPrefixes_last [of "[]" p] by simp
  with assms(2) have "\<not> isFileAt w p" by (auto simp: list_ex_iff)
  with m show ?thesis
    by (auto simp: MkdirAll_ok [OF assms] isDirAt_def isFileAt_def foldl_mkdirIfAbsent newDir_def
        split: option.splits)
qed


























lemma Clean_examples:
  "filepath_Clean ''/home/u/.config/niri'' = ''/home/u/.config/niri''"
  "filepath_Clean ''/home/u/NiriSetup/config.kdl'' = ''/home/u/NiriSetup/config.kdl''"
  "filepath_Clean ''/tmp/nirisetup.log'' = ''/tmp/nirisetup.log''"
  "filepath_Clean ''//config.kdl'' = ''/config.kdl''"
  "filepath_Clean ''/tmp//nirisetup.log'' = ''/tmp/nirisetup.log''"
  by (simp_all add: filepath_Clean_def isRooted_def cleanStep_def Let_def)




lemma copyFile_missing_source:
  "openFault sy src = None \<Longrightarrow> fs w src = None \<Longrightarrow> copyFile sy src dst w = (Some ErrNotExist, w)"
  by (simp add: copyFile_def)







text \<open>
  Started in the root directory, the source is \<^verbatim>\<open>/config.kdl\<close>: \<^verbatim>\<open>filepath.Join\<close>
  cleans the doubled separator.
\<close>

lemma sourceConfigPath_root: "sourceConfigPath ''/'' = ''/config.kdl''"
  by (simp add: sourceConfigPath_def filepath_Join_def Clean_examples)




subsection \<open>Validate\<close>

text \<open>
  Claim C8, as amended. The validate runner (of either file) returns a nil error exactly
  when the validator ran and exited with status 0, and then the message is the fixed
  text \<^verbatim>\<open>Niri configuration is valid.\<close>; otherwise the message is a fixed prefix
  (\<^verbatim>\<open>Validation failed: \<close> in \<^verbatim>\<open>NiriSetup.go\<close>, \<^verbatim>\<open>Configuration validation failed: \<close>
  in the second file) followed by the combined output of the validator.
\<close>

theorem validate_result:
  "(err (fst (validateNiriConfig sy w)) = None
      \<longleftrightarrow> snd (command sy (commands w) [''niri'', ''validate'']) = Exited 0)
   \<and> status (fst (validateNiriConfig sy w)) =
       (if snd (command sy (commands w) [''niri'', ''validate'']) = Exited 0
        then ''Niri configuration is valid.''
        else ''Validation failed: '' @ fst (command sy (commands w) [''niri'', ''validate'']))
   \<and> (err (fst (validateNiriConfig_p0 sy w)) = None
      \<longleftrightarrow> snd (command sy (commands w) [''niri'', ''validate'']) = Exited 0)
   \<and> status (fst (validateNiriConfig_p0 sy w)) =
       (if snd (command sy (commands w) [''niri'', ''validate'']) = Exited 0
        then ''Niri configuration is valid.''
        else ''Configuration validation failed: '' @ fst (command sy (commands w) [''niri'', ''validate'']))"
proof (cases "snd (command sy (commands w) [''niri'', ''validate'']) = Exited 0")
  case True
  from CombinedOutput_ok [OF True] True show ?thesis
    by (simp add: validateNiriConfig_def validateNiriConfig_p0_def)
next
  case False
  from CombinedOutput_failed [OF False] False show ?thesis
    by (auto simp: validateNiriConfig_def validateNiriConfig_p0_def)
qed

text \<open>A validator that accepts, and one that exits with status 1.\<close>

theorem validate_result_witness:
  "err (fst (validateNiriConfig sys0 world0)) = None
   \<and> status (fst (validateNiriConfig sys0 world0)) = ''Niri configuration is valid.''
   \<and> err (fst (validateNiriConfig sysInvalid world0)) \<noteq> None
   \<and> status (fst (validateNiriConfig sysInvalid world0)) = ''Validation failed: bad config''"
  using validate_result [of sys0 world0] validate_result [of sysInvalid world0]
  by (simp add: sysInvalid_def sys0_def world0_def)

text \<open>
  Claim C8 as stated fails in its second part: on failure the message is not the
  validator's output but the output behind a prefix.
\<close>

theorem validate_message_has_prefix:
  "err (fst (validateNiriConfig sysInvalid world0)) = Some (ExitError 1)
   \<and> fst (command sysInvalid (commands world0) [''niri'', ''validate'']) = ''bad config''
   \<and> status (fst (validateNiriConfig sysInvalid world0)) = ''Validation failed: bad config''
   \<and> status (fst (validateNiriConfig sysInvalid world0))
       \<noteq> fst (command sysInvalid (commands world0) [''niri'', ''validate''])"
  by (simp add: validateNiriConfig_def CombinedOutput_def sysInvalid_def sys0_def world0_def)

subsection \<open>Save Logs\<close>

lemma logText_Cons: "logText (l # ls) = l @ nl @ logText ls"
  by (simp add: logText_def)

lemma contentOf_setContent:
  "fs w p \<noteq> None \<Longrightarrow> contentOf (setContent p d w) p = d"
  by (auto simp: contentOf_def setContent_def)

lemma setContent_twice: "setContent p d' (setContent p d w) = setContent p d' w"
  by (cases "fs w p") (simp_all add: setContent_def)

lemma setContent_same: "setContent p (contentOf w p) w = w"
  by (cases "fs w p") (simp_all add: setContent_def contentOf_def fun_upd_idem)

lemma fs_setContent_exists: "fs w p \<noteq> None \<Longrightarrow> fs (setContent p d w) p \<noteq> None"
  by (auto simp: setContent_def)

lemma fs_setContent_other: "q \<noteq> p \<Longrightarrow> fs (setContent p d w) q = fs w q"
  by (simp add: setContent_def)

lemma writeLines_ok:
  assumes "\<forall>c d. writeFault sy p c d = None" "fs w p \<noteq> None"
  shows "writeLines sy p ls w = (None, setContent p (contentOf w p @ logText ls) w)"
  using assms(2)
proof (induction ls arbitrary: w)
  case Nil
  then show ?case
    by (simp add: logText_def setContent_same)
next
  case (Cons l ls)
  let ?w = "setContent p (contentOf w p @ l @ nl) w"
  have w: "WriteString sy p (l @ nl) w = (None, ?w)"
    using assms(1) by (simp add: WriteString_def)
  have e: "fs ?w p \<noteq> None" using Cons.prems by (rule fs_setContent_exists)
  from Cons.IH [OF e] w Cons.prems show ?case
    by (simp add: contentOf_setContent setContent_twice logText_Cons)
qed

lemma saveLogsToFile_ok:
  assumes "openFault sy (logFile sy) = None" "\<forall>c d. writeFault sy (logFile sy) c d = None"
    "\<not> isDirAt w (logFile sy)"
  shows "\<exists>w'. saveLogsToFile sy lines w = (\<lparr>status = ''Logs saved to '' @ logFile sy, err = None\<rparr>, w')
           \<and> fs w' (logFile sy) \<noteq> None \<and> \<not> isDirAt w' (logFile sy)
           \<and> contentOf w' (logFile sy) = contentOf w (logFile sy) @ logText lines
           \<and> (\<forall>q. q \<noteq> logFile sy \<longrightarrow> fs w' q = fs w q)"
proof (cases "fs w (logFile sy)")
  case None
  let ?w1 = "w\<lparr>fs := (fs w)(logFile sy \<mapsto> newFile sy (octal 6 4 4))\<rparr>"
  have o: "OpenFile_append sy (logFile sy) (octal 6 4 4) w = (None, ?w1)"
    using assms(1) None by (simp add: OpenFile_append_def)
  have e: "fs ?w1 (logFile sy) \<noteq> None" by simp
  from writeLines_ok [OF assms(2) e, of lines] o None show ?thesis
    by (simp add: saveLogsToFile_def contentOf_def setContent_def newFile_def isDirAt_def)
next
  case (Some n)
  with assms(3) have nd: "\<not> isDir n" by (simp add: isDirAt_def)
  have o: "OpenFile_append sy (logFile sy) (octal 6 4 4) w = (None, w)"
    using assms(1) Some nd by (simp add: OpenFile_append_def)
  have e: "fs w (logFile sy) \<noteq> None" using Some by simp
  from writeLines_ok [OF assms(2) e, of lines] o Some nd show ?thesis
    by (simp add: saveLogsToFile_def contentOf_def setContent_def isDirAt_def)
qed

text \<open>
  Claim C9. When the log file can be opened and written (no fault, and its path is not
  a directory), Save Logs leaves the file holding what it held before followed by every
  log line in order, each ended by a newline, and returns a result with a nil error
  whose message is \<^verbatim>\<open>Logs saved to\<close> followed by the path of the file. Run a second
  time with the same lines, it appends them once more: the file then holds the old
  content followed by the lines twice. No other path of the file system changes.
\<close>

theorem save_logs_appends:
  assumes "openFault sy (logFile sy) = None" "\<forall>c d. writeFault sy (logFile sy) c d = None"
    "\<not> isDirAt w (logFile sy)"
  shows "\<exists>w1 w2.
           saveLogsToFile sy lines w = (\<lparr>status = ''Logs saved to '' @ logFile sy, err = None\<rparr>, w1)
         \<and> contentOf w1 (logFile sy) = contentOf w (logFile sy) @ logText lines
         \<and> saveLogsToFile sy lines w1 = (\<lparr>status = ''Logs saved to '' @ logFile sy, err = None\<rparr>, w2)
         \<and> contentOf w2 (logFile sy) = contentOf w (logFile sy) @ logText lines @ logText lines
         \<and> (\<forall>q. q \<noteq> logFile sy \<longrightarrow> fs w2 q = fs w q)"
proof -
  from saveLogsToFile_ok [OF assms, of lines] obtain w1 where
    1: "saveLogsToFile sy lines w = (\<lparr>status = ''Logs saved to '' @ logFile sy, err = None\<rparr>, w1)"
      "\<not> isDirAt w1 (logFile sy)"
      "contentOf w1 (logFile sy) = contentOf w (logFile sy) @ logText lines"
      "\<forall>q. q \<noteq> logFile sy \<longrightarrow> fs w1 q = fs w q"
    by blast
  from saveLogsToFile_ok [OF assms(1,2) 1(2), of lines] obtain w2 where
    2: "saveLogsToFile sy lines w1 = (\<lparr>status = ''Logs saved to '' @ logFile sy, err = None\<rparr>, w2)"
      "contentOf w2 (logFile sy) = contentOf w1 (logFile sy) @ logText lines"
      "\<forall>q. q \<noteq> logFile sy \<longrightarrow> fs w2 q = fs w1 q"
    by blast
  from 1 2 show ?thesis by auto
qed

text \<open>The log \<^verbatim>\<open>a\<close>, \<^verbatim>\<open>b\<close> saved twice on an empty machine.\<close>

theorem save_logs_appends_witness:
  "logFile sys0 = ''/tmp/nirisetup.log''
   \<and> (\<exists>w1 w2.
        saveLogsToFile sys0 [''a'', ''b''] world0 = (\<lparr>status = ''Logs saved to /tmp/nirisetup.log'', err = None\<rparr>, w1)
      \<and> contentOf w1 ''/tmp/nirisetup.log'' = ''a'' @ nl @ ''b'' @ nl
      \<and> saveLogsToFile sys0 [''a'', ''b''] w1 = (\<lparr>status = ''Logs saved to /tmp/nirisetup.log'', err = None\<rparr>, w2)
      \<and> contentOf w2 ''/tmp/nirisetup.log'' = ''a'' @ nl @ ''b'' @ nl @ ''a'' @ nl @ ''b'' @ nl)"
proof -
  have p: "logFile sys0 = ''/tmp/nirisetup.log''"
    by (simp add: logFile_def filepath_Join_def sys0_def filepath_Clean_def isRooted_def
        cleanStep_def Let_def)
  have 1: "openFault sys0 (logFile sys0) = None" by (simp add: sys0_def)
  have 2: "\<forall>c d. writeFault sys0 (logFile sys0) c d = None" by (simp add: sys0_def)
  have 3: "\<not> isDirAt world0 (logFile sys0)" by (simp add: isDirAt_def world0_def)
  have 4: "contentOf world0 ''/tmp/nirisetup.log'' = []" by (simp add: contentOf_def world0_def)
  from save_logs_appends [OF 1 2 3, of "[''a'', ''b'']"] p 4 show ?thesis
    by (auto simp: logText_def)
qed

section \<open>Start-up\<close>

text \<open>
  The name of the runtime directory is a function of the user id, and different user
  ids give different names: \<^verbatim>\<open>%d\<close> can be read back.
\<close>

lemma digit_cases:
  assumes "(d::nat) < 10"
  shows "d = 0 \<or> d = 1 \<or> d = 2 \<or> d = 3 \<or> d = 4 \<or> d = 5 \<or> d = 6 \<or> d = 7 \<or> d = 8 \<or> d = 9"
  using assms by arith

lemma digitVal_digit: "d < 10 \<Longrightarrow> digitVal (''0123456789'' ! d) = d"
  using digit_cases [of d] by (auto simp: digitVal_def)

lemma digit_not_minus: "d < 10 \<Longrightarrow> ''0123456789'' ! d \<noteq> CHR ''-''"
  using digit_cases [of d] by auto

lemma valueOf_snoc: "valueOf (ds @ [c]) = 10 * valueOf ds + digitVal c"
  by (simp add: valueOf_def)

lemma valueOf_digitsOf: "valueOf (digitsOf n) = n"
proof (induction n rule: digitsOf.induct)
  case (1 n)
  show ?case
  proof (cases "n < 10")
    case True
    then show ?thesis
      by (simp add: digitsOf.simps [of n] valueOf_def digitVal_digit)
  next
    case False
    with 1 have "valueOf (digitsOf (n div 10)) = n div 10" by simp
    with False show ?thesis
      by (simp add: digitsOf.simps [of n] valueOf_snoc digitVal_digit)
  qed
qed

lemma digitsOf_no_minus: "CHR ''-'' \<notin> set (digitsOf n)"
proof (induction n rule: digitsOf.induct)
  case (1 n)
  show ?case
  proof (cases "n < 10")
    case True
    then show ?thesis
      using digit_not_minus [of n] by (simp add: digitsOf.simps [of n])
  next
    case False
    with 1 have "CHR ''-'' \<notin> set (digitsOf (n div 10))" by simp
    with False show ?thesis
      using digit_not_minus [of "n mod 10"] by (simp add: digitsOf.simps [of n])
  qed
qed

lemma digitsOf_inj: "digitsOf a = digitsOf b \<Longrightarrow> a = b"
  by (metis valueOf_digitsOf)

lemma fmt_d_inj:
  assumes "fmt_d a = fmt_d b"
  shows "a = b"
proof -
  have neg: "fmt_d i = CHR ''-'' # digitsOf (nat (- i))" if "i < 0" for i
    using that by (simp add: fmt_d_def)
  have pos: "fmt_d i = digitsOf (nat i)" if "\<not> i < 0" for i
    using that by (simp add: fmt_d_def)
  show ?thesis
  proof (cases "a < 0"; cases "b < 0")
    assume "a < 0" "b < 0"
    with assms neg have "digitsOf (nat (- a)) = digitsOf (nat (- b))" by simp
    from digitsOf_inj [OF this] \<open>a < 0\<close> \<open>b < 0\<close> show ?thesis by simp
  next
    assume "a < 0" "\<not> b < 0"
    with assms neg [of a] pos [of b] have "CHR ''-'' \<in> set (digitsOf (nat b))"
      by (metis list.set_intros(1))
    with digitsOf_no_minus show ?thesis by blast
  next
    assume "\<not> a < 0" "b < 0"
    with assms neg [of b] pos [of a] have "CHR ''-'' \<in> set (digitsOf (nat a))"
      by (metis list.set_intros(1))
    with digitsOf_no_minus show ?thesis by blast
  next
    assume "\<not> a < 0" "\<not> b < 0"
    with assms pos have "digitsOf (nat a) = digitsOf (nat b)" by simp
    from digitsOf_inj [OF this] \<open>\<not> a < 0\<close> \<open>\<not> b < 0\<close> show ?thesis by simp
  qed
qed

lemma runtimeDir_inj: "runtimeDir a = runtimeDir b \<Longrightarrow> a = b"
  by (simp add: runtimeDir_def fmt_d_inj)

lemma runtimeDir_1001: "runtimeDir 1001 = ''/tmp/1001-runtime-dir''"
  by (simp add: runtimeDir_def fmt_d_def digitsOf.simps)

lemma owner_differs:
  assumes "0 \<le> u" "u < 2 ^ 32" "uint (x :: 32 word) \<noteq> u"
  shows "x \<noteq> word_of_int u"
proof
  assume "x = word_of_int u"
  then have "uint x = u mod 2 ^ 32" by (simp add: uint_word_of_int take_bit_eq_mod)
  with assms show False by simp
qed

lemma setupEnvironment_creates:
  assumes "statFault sy (runtimeDir (geteuid sy)) = None"
    "fs w (runtimeDir (geteuid sy)) = None"
    "mkdirFault sy (runtimeDir (geteuid sy)) = None"
  shows "setupEnvironment sy w =
           Inr (w\<lparr>environ := (environ w)(''XDG_RUNTIME_DIR'' \<mapsto> runtimeDir (geteuid sy)),
                  fs := (fs w)(runtimeDir (geteuid sy) \<mapsto>
                          \<lparr>owner = word_of_int (geteuid sy), perm = octal 7 0 0, isDir = True,
                           content = []\<rparr>)\<rparr>)"
  using assms by (simp add: setupEnvironment_def Stat_def Mkdir_def newDir_def Let_def)

lemma setupEnvironment_foreign:
  assumes "statFault sy (runtimeDir (geteuid sy)) = None"
    "fs w (runtimeDir (geteuid sy)) = Some n"
    "owner n \<noteq> word_of_int (geteuid sy)"
  shows "setupEnvironment sy w =
           Inl (if statHasUid sy then WrongOwner (runtimeDir (geteuid sy)) (owner n) (geteuid sy)
                else NoOwnerInfo)"
  using assms by (simp add: setupEnvironment_def Stat_def Let_def)

text \<open>
  Claim C6. \<^verbatim>\<open>main\<close> of \<^verbatim>\<open>NiriSetup.go\<close> runs \<^verbatim>\<open>setupEnvironment\<close> before it builds
  the model. For an effective user id in the range of \<^verbatim>\<open>uint32\<close> and a runtime
  directory that can be inspected: when the directory \<^verbatim>\<open>/tmp/<uid>-runtime-dir\<close> is
  absent and can be created, it is created as a directory of the user with mode 0700,
  the environment variable is set and the program starts with the initial model; when
  it exists and the user id of its owner differs from the effective user id, the
  process ends in \<^verbatim>\<open>log.Fatalf\<close> and no model is built.
\<close>

theorem runtime_dir_checked_at_startup:
  assumes "0 \<le> geteuid sy" "geteuid sy < 2 ^ 32"
    and "statFault sy (runtimeDir (geteuid sy)) = None"
  shows "(fs w (runtimeDir (geteuid sy)) = None \<and> mkdirFault sy (runtimeDir (geteuid sy)) = None \<longrightarrow>
            (\<exists>w'. main sy w = Inr (initialModel, w')
               \<and> fs w' (runtimeDir (geteuid sy)) =
                   Some \<lparr>owner = word_of_int (geteuid sy), perm = octal 7 0 0, isDir = True,
                         content = []\<rparr>
               \<and> environ w' ''XDG_RUNTIME_DIR'' = Some (runtimeDir (geteuid sy))))
       \<and> (\<forall>n. fs w (runtimeDir (geteuid sy)) = Some n \<and> uint (owner n) \<noteq> geteuid sy \<longrightarrow>
            (\<exists>f. setupEnvironment sy w = Inl f \<and> main sy w = Inl f))"
proof (intro conjI allI impI)
  assume a: "fs w (runtimeDir (geteuid sy)) = None \<and> mkdirFault sy (runtimeDir (geteuid sy)) = None"
  with setupEnvironment_creates [OF assms(3), of w]
  show "\<exists>w'. main sy w = Inr (initialModel, w')
               \<and> fs w' (runtimeDir (geteuid sy)) =
                   Some \<lparr>owner = word_of_int (geteuid sy), perm = octal 7 0 0, isDir = True,
                         content = []\<rparr>
               \<and> environ w' ''XDG_RUNTIME_DIR'' = Some (runtimeDir (geteuid sy))"
    by (simp add: main_def)
next
  fix n
  assume a: "fs w (runtimeDir (geteuid sy)) = Some n \<and> uint (owner n) \<noteq> geteuid sy"
  then have "owner n \<noteq> word_of_int (geteuid sy)"
    using owner_differs [OF assms(1,2)] by blast
  with setupEnvironment_foreign [OF assms(3), of w n] a
  show "\<exists>f. setupEnvironment sy w = Inl f \<and> main sy w = Inl f"
    by (simp add: main_def)
qed

text \<open>User 1001 on an empty machine, and on one where root owns the directory.\<close>

theorem runtime_dir_checked_at_startup_witness:
  "(\<exists>w'. main sys0 world0 = Inr (initialModel, w')
       \<and> fs w' ''/tmp/1001-runtime-dir'' =
           Some \<lparr>owner = 1001, perm = 448, isDir = True, content = []\<rparr>
       \<and> environ w' ''XDG_RUNTIME_DIR'' = Some ''/tmp/1001-runtime-dir'')
   \<and> main sys0 worldForeign = Inl (WrongOwner ''/tmp/1001-runtime-dir'' 0 1001)"
proof -
  have e: "geteuid sys0 = 1001" by (simp add: sys0_def)
  have 1: "0 \<le> geteuid sys0" "geteuid sys0 < 2 ^ 32"
    and 2: "statFault sys0 (runtimeDir (geteuid sys0)) = None"
    by (simp_all add: sys0_def)
  have 3: "fs world0 (runtimeDir (geteuid sys0)) = None \<and> mkdirFault sys0 (runtimeDir (geteuid sys0)) = None"
    by (simp add: sys0_def world0_def)
  have 4: "fs worldForeign (runtimeDir (geteuid sys0)) = Some rootOwned \<and> uint (owner rootOwned) \<noteq> geteuid sys0"
    by (simp add: e runtimeDir_1001 worldForeign_def rootOwned_def)
  have 5: "main sys0 worldForeign = Inl (WrongOwner ''/tmp/1001-runtime-dir'' 0 1001)"
    by (simp add: main_def setupEnvironment_def Stat_def Let_def sys0_def runtimeDir_1001
        worldForeign_def rootOwned_def)
  from runtime_dir_checked_at_startup [OF 1 2, of world0] 3 runtime_dir_checked_at_startup [OF 1 2, of worldForeign] 4 5
  show ?thesis
    by (auto simp: e runtimeDir_1001 octal_def)
qed

text \<open>
  The second file differs, as the specification notes: it does not look at a directory
  that exists, and goes on.
\<close>

lemma setupEnvironment_p0_keeps_foreign:
  assumes "statFault sy (runtimeDir (geteuid sy)) = None"
    "fs w (runtimeDir (geteuid sy)) = Some n"
  shows "setupEnvironment_p0 sy w =
           (None, w\<lparr>environ := (environ w)(''XDG_RUNTIME_DIR'' \<mapsto> runtimeDir (geteuid sy))\<rparr>)"
  using assms by (simp add: setupEnvironment_p0_def Stat_def Let_def)

end
